theory Spec2Isabelle
  imports Main "HOL-Library.Word"
begin

section \<open>Values of the run time\<close>

text \<open>
  The controller is TypeScript. Values that the code receives from \<open>JSON.parse\<close> are
  untyped, so they are kept as a datatype of JSON values; numbers are integers here (no
  operation of the controller computes with a parsed number, only its truthiness is read).
\<close>

datatype json =
    JNull
  | JBool bool
  | JNumber int
  | JString string
  | JArray "json list"
  | JObject "(string \<times> json) list"

text \<open>JavaScript truthiness, as read by \<open>||\<close>, \<open>!\<close>, \<open>? :\<close> and \<open>if\<close>.\<close>

fun truthy_json :: "json \<Rightarrow> bool" where
  "truthy_json JNull = False"
| "truthy_json (JBool b) = b"
| "truthy_json (JNumber n) = (n \<noteq> 0)"
| "truthy_json (JString s) = (s \<noteq> [])"
| "truthy_json (JArray xs) = True"
| "truthy_json (JObject kvs) = True"

text \<open>\<open>None\<close> is \<open>undefined\<close> or \<open>null\<close>; the empty string is falsy.\<close>

fun truthy_string :: "string option \<Rightarrow> bool" where
  "truthy_string None = False"
| "truthy_string (Some s) = (s \<noteq> [])"

fun truthy_bool :: "bool option \<Rightarrow> bool" where
  "truthy_bool None = False"
| "truthy_bool (Some b) = b"

fun truthy_json_opt :: "json option \<Rightarrow> bool" where
  "truthy_json_opt None = False"
| "truthy_json_opt (Some v) = truthy_json v"

datatype error =
    NotFound string
  | BadRequest string
  | Forbidden string
  | TypeError
  | SyntaxError

section \<open>The structured application record\<close>

record Identity =
  code :: string
  name :: "string option"
  icon :: "string option"
  description :: "string option"
  website :: string
  categories :: "string list"
  compatibility :: "string list"
  repository :: "string option"

record Publication =
  published :: bool
  requested :: bool

text \<open>
  The timestamps and the version are JavaScript numbers that hold integers; the one
  operation on them, the increment of the version, is defined with \<open>save\<close>.
\<close>

record Stats =
  created_at :: int
  updated_at :: int
  version :: int

record Api =
  hooks_url :: "string option"
  allowed_ips :: "string option"
  private_key :: "string option"

text \<open>
  The capability lists hold whatever \<open>JSON.parse\<close> returned for the legacy strings, so
  their fields are JSON values.
\<close>

record Access =
  read :: json
  "write" :: json
  delete :: json
  hooks :: json

text \<open>
  \<open>display.twake.tab\<close> and \<open>display.twake.standalone\<close> are either an object
  \<open>{url: ...}\<close> or a boolean; \<open>display.twake.direct\<close> is an object
  \<open>{name: ..., icon: ...}\<close> or a boolean.
\<close>

datatype url_binding = UrlObject "string option" | UrlFlag bool

datatype direct_binding = DirectObject "string option" "string option" | DirectFlag bool

record FilesEditor =
  preview_url :: "string option"
  edition_url :: "string option"
  extensions :: "string list"
  empty_files :: json

record Files =
  editor :: "FilesEditor option"
  files_actions :: "json list"

record ChatInput =
  input_icon :: "string option"

record ChatAction =
  action_name :: "string option"
  action_id :: string

record Chat =
  input :: "ChatInput option"
  commands :: "json option"
  actions :: "ChatAction list option"

record Twake =
  tab :: "url_binding option"
  standalone :: "url_binding option"
  configuration :: "string list option"
  direct :: "direct_binding option"
  files :: "Files option"
  chat :: "Chat option"

record Display =
  twake :: "Twake option"

text \<open>
  A fresh \<open>new Application()\<close> has no column set, and the importer tests every column
  with \<open>?.\<close> before it reads it: each column is optional at run time. The leaves of the
  nested objects have their declared types.
\<close>

record Application =
  app_id :: "string option"
  company_id :: "string option"
  is_default :: "bool option"
  identity :: "Identity option"
  publication :: "Publication option"
  stats :: "Stats option"
  api :: "Api option"
  access :: "Access option"
  display :: "Display option"

definition new_Application :: Application where
  "new_Application =
     \<lparr>app_id = None, company_id = None, is_default = None, identity = None,
      publication = None, stats = None, api = None, access = None, display = None\<rparr>"

section \<open>The legacy display configuration\<close>

text \<open>
  The type \<open>DepreciatedDisplayConfiguration\<close> is declared outside the controller; the
  records below hold the fields that \<open>importDepreciatedDisplayFields\<close> reads, each
  optional as the \<open>?.\<close> reads allow.
\<close>

record ChannelTab =
  tab_iframe :: "string option"

record StandaloneApp =
  app_iframe :: "string option"

record ConfigurationFlags =
  can_configure_in_workspace :: "bool option"
  can_configure_in_channel :: "bool option"

record CanOpenFiles =
  open_preview_url :: "string option"
  open_url :: "string option"
  main_ext :: "string list option"
  other_ext :: "string list option"

record DriveModule =
  can_open_files :: "CanOpenFiles option"
  can_create_files :: "json option"

record LegacyAction =
  action_description :: "string option"

record MessagesModule =
  in_plus :: "json option"
  right_icon :: "json option"
  legacy_commands :: "json option"
  action :: "LegacyAction option"

record DepreciatedDisplayConfiguration =
  channel_tab :: "ChannelTab option"
  app :: "StandaloneApp option"
  legacy_configuration :: "ConfigurationFlags option"
  member_app :: "bool option"
  drive_module :: "DriveModule option"
  messages_module :: "MessagesModule option"

section \<open>importDepreciatedDisplayFields\<close>

text \<open>
  \<open>a || b\<close> on a binding: the left operand when it is truthy. An object literal is always
  truthy; a boolean is truthy when it is \<open>true\<close>.
\<close>

fun truthy_url_binding :: "url_binding \<Rightarrow> bool" where
  "truthy_url_binding (UrlObject u) = True"
| "truthy_url_binding (UrlFlag b) = b"

fun truthy_direct_binding :: "direct_binding \<Rightarrow> bool" where
  "truthy_direct_binding (DirectObject n i) = True"
| "truthy_direct_binding (DirectFlag b) = b"

definition or_url_binding :: "url_binding \<Rightarrow> url_binding \<Rightarrow> url_binding" where
  "or_url_binding a b = (if truthy_url_binding a then a else b)"

definition or_direct_binding :: "direct_binding \<Rightarrow> direct_binding \<Rightarrow> direct_binding" where
  "or_direct_binding a b = (if truthy_direct_binding a then a else b)"

definition empty_Twake :: Twake where
  "empty_Twake =
     \<lparr>tab = None, standalone = None, configuration = None, direct = None,
      files = None, chat = None\<rparr>"

text \<open>Lines 34 to 39: the \<open>twake\<close> object that the rest of the function fills in.\<close>

definition ensure_twake :: "Display option \<Rightarrow> Twake" where
  "ensure_twake d =
     (case d of
        None \<Rightarrow> empty_Twake
      | Some d' \<Rightarrow> (case twake d' of None \<Rightarrow> empty_Twake | Some t \<Rightarrow> t))"

definition put_twake :: "Display option \<Rightarrow> Twake \<Rightarrow> Display" where
  "put_twake d t =
     (case d of
        None \<Rightarrow> \<lparr>twake = Some t\<rparr>
      | Some d' \<Rightarrow> d'\<lparr>twake := Some t\<rparr>)"

text \<open>Lines 55 to 57; reading \<open>application.identity.name\<close> of an absent identity throws.\<close>

definition import_direct ::
  "Application \<Rightarrow> DepreciatedDisplayConfiguration option \<Rightarrow> error + direct_binding option"
where
  "import_direct application depreciatedDisplay =
     (if truthy_bool (Option.bind depreciatedDisplay member_app)
      then (case identity application of
              None \<Rightarrow> Inl TypeError
            | Some i \<Rightarrow> Inr (Some (or_direct_binding (DirectObject (name i) (icon i)) (DirectFlag True))))
      else Inr None)"

text \<open>Lines 59 to 74.\<close>

definition import_files :: "DriveModule \<Rightarrow> Files" where
  "import_files dm =
     (let cof = can_open_files dm
      in \<lparr>editor =
            Some \<lparr>preview_url = Option.bind cof open_preview_url,
                  edition_url = Option.bind cof open_url,
                  extensions =
                    (case Option.bind cof main_ext of None \<Rightarrow> [] | Some xs \<Rightarrow> xs) @
                    (case Option.bind cof other_ext of None \<Rightarrow> [] | Some xs \<Rightarrow> xs),
                  empty_files =
                    (case can_create_files dm of
                       None \<Rightarrow> JArray []
                     | Some v \<Rightarrow> if truthy_json v then v else JArray [])\<rparr>,
          files_actions = []\<rparr>)"

text \<open>Lines 76 to 97; reading \<open>application.identity.icon\<close> of an absent identity throws.\<close>

definition import_chat :: "Application \<Rightarrow> MessagesModule \<Rightarrow> error + Chat" where
  "import_chat application mm =
     (case (if truthy_json_opt (in_plus mm) \<or> truthy_json_opt (right_icon mm)
            then (case identity application of
                    None \<Rightarrow> Inl TypeError
                  | Some i \<Rightarrow> Inr (Some \<lparr>input_icon = icon i\<rparr>))
            else Inr None) of
        Inl e \<Rightarrow> Inl e
      | Inr inp \<Rightarrow>
          Inr \<lparr>input = inp,
               commands = (if truthy_json_opt (legacy_commands mm) then legacy_commands mm else None),
               actions =
                 (case action mm of
                    None \<Rightarrow> None
                  | Some a \<Rightarrow> Some [\<lparr>action_name = action_description a, action_id = ''default''\<rparr>])\<rparr>)"

definition importDepreciatedDisplayFields ::
  "Application \<Rightarrow> DepreciatedDisplayConfiguration option \<Rightarrow> error + Display"
where
  "importDepreciatedDisplayFields application depreciatedDisplay =
     (let t1 = (ensure_twake (display application))
            \<lparr>tab :=
               (case Option.bind depreciatedDisplay channel_tab of
                  Some ct \<Rightarrow> Some (or_url_binding (UrlObject (tab_iframe ct)) (UrlFlag True))
                | None \<Rightarrow> None),
             standalone :=
               (case Option.bind depreciatedDisplay app of
                  Some sa \<Rightarrow> Some (or_url_binding (UrlObject (app_iframe sa)) (UrlFlag True))
                | None \<Rightarrow> None),
             configuration :=
               Some ([] @
                 (if truthy_bool (Option.bind (Option.bind depreciatedDisplay legacy_configuration)
                                     can_configure_in_workspace)
                  then [''global''] else []) @
                 (if truthy_bool (Option.bind (Option.bind depreciatedDisplay legacy_configuration)
                                     can_configure_in_channel)
                  then [''channel''] else []))\<rparr>
      in case import_direct application depreciatedDisplay of
           Inl e \<Rightarrow> Inl e
         | Inr dir \<Rightarrow>
             (let t2 = t1\<lparr>direct := dir\<rparr>;
                  t3 = (case Option.bind depreciatedDisplay drive_module of
                          None \<Rightarrow> t2
                        | Some dm \<Rightarrow> t2\<lparr>files := Some (import_files dm)\<rparr>)
              in case Option.bind depreciatedDisplay messages_module of
                   None \<Rightarrow> Inr (put_twake (display application) t3)
                 | Some mm \<Rightarrow>
                     (case import_chat application mm of
                        Inl e \<Rightarrow> Inl e
                      | Inr c \<Rightarrow> Inr (put_twake (display application) (t3\<lparr>chat := Some c\<rparr>)))))"

section \<open>The legacy record and the run-time services of the importer\<close>

text \<open>
  \<open>PhpApplication\<close> is declared outside the controller; the record holds the columns
  that \<open>importDepreciatedFields\<close> reads. A nullable text column is a \<open>string option\<close>.
\<close>

record PhpApplication =
  php_id :: string
  group_id :: string
  php_is_default :: bool
  depreciated_simple_name :: "string option"
  depreciated_name :: "string option"
  depreciated_icon_url :: "string option"
  depreciated_description :: "string option"
  depreciated_is_available_to_public :: bool
  depreciated_public :: bool
  depreciated_twake_team_validation :: bool
  depreciated_api_events_url :: "string option"
  depreciated_api_allowed_ip :: "string option"
  depreciated_api_private_key :: "string option"
  depreciated_capabilities :: "string option"
  depreciated_privileges :: "string option"
  depreciated_hooks :: "string option"
  depreciated_display_configuration :: "string option"

text \<open>
  The built-ins of the language that the importer calls are parameters of the model:
  \<open>JSON_parse\<close> is \<open>JSON.parse\<close> (\<open>None\<close> when it throws its SyntaxError),
  \<open>toLocaleLowerCase\<close> is the string method, and \<open>as_display_configuration\<close> is the
  reading of a parsed value at the declared parameter type
  \<open>DepreciatedDisplayConfiguration\<close> (\<open>None\<close> for \<open>null\<close>).
\<close>

record runtime =
  JSON_parse :: "string \<Rightarrow> json option"
  toLocaleLowerCase :: "string \<Rightarrow> string"
  as_display_configuration :: "json \<Rightarrow> DepreciatedDisplayConfiguration option"

text \<open>\<open>s || d\<close> on a nullable string.\<close>

fun or_string :: "string option \<Rightarrow> string \<Rightarrow> string" where
  "or_string None d = d"
| "or_string (Some s) d = (if s \<noteq> [] then s else d)"

text \<open>\<open>v || []\<close> on a parsed value.\<close>

definition or_empty_array :: "json \<Rightarrow> json" where
  "or_empty_array v = (if truthy_json v then v else JArray [])"

section \<open>importDepreciatedFields\<close>

text \<open>Lines 109 to 121.\<close>

definition import_identity :: "runtime \<Rightarrow> PhpApplication \<Rightarrow> Application \<Rightarrow> Application" where
  "import_identity rt application newApplication =
     (if \<not> truthy_string (Option.bind (identity newApplication) name)
      then newApplication
             \<lparr>identity :=
                Some \<lparr>code =
                        (if truthy_string (depreciated_simple_name application)
                         then or_string (depreciated_simple_name application) []
                         else toLocaleLowerCase rt (or_string (depreciated_name application) [])),
                      name = depreciated_name application,
                      icon = depreciated_icon_url application,
                      description = depreciated_description application,
                      website = ''http://twake.app/'',
                      categories = [],
                      compatibility = [''twake''],
                      repository = None\<rparr>\<rparr>
      else newApplication)"

text \<open>Lines 123 to 131: \<open>publication?.published === undefined\<close> holds when there is no publication.\<close>

definition import_publication :: "PhpApplication \<Rightarrow> Application \<Rightarrow> Application" where
  "import_publication application newApplication =
     (if (case publication newApplication of None \<Rightarrow> True | Some p \<Rightarrow> False)
      then newApplication
             \<lparr>publication :=
                Some ((case publication newApplication of
                         None \<Rightarrow> \<lparr>published = False, requested = False\<rparr>
                       | Some p \<Rightarrow> p)
                      \<lparr>published := depreciated_is_available_to_public application,
                       requested :=
                         (depreciated_public application \<and>
                          \<not> depreciated_twake_team_validation application)\<rparr>)\<rparr>
      else newApplication)"

text \<open>
  Lines 133 to 142; \<open>t_created\<close> and \<open>t_updated\<close> are the two readings of \<open>Date.now()\<close>.
  The three \<open>null\<close>s of the fresh object are overwritten at once; the model writes 0 for them.
\<close>

definition import_stats :: "int \<Rightarrow> int \<Rightarrow> Application \<Rightarrow> Application" where
  "import_stats t_created t_updated newApplication =
     (if (case stats newApplication of None \<Rightarrow> True | Some s \<Rightarrow> version s = 0)
      then newApplication
             \<lparr>stats :=
                Some ((case stats newApplication of
                         None \<Rightarrow> \<lparr>created_at = 0, updated_at = 0, version = 0\<rparr>
                       | Some s \<Rightarrow> s)
                      \<lparr>version := 1, created_at := t_created, updated_at := t_updated\<rparr>)\<rparr>
      else newApplication)"

text \<open>Lines 144 to 153.\<close>

definition import_api :: "PhpApplication \<Rightarrow> Application \<Rightarrow> Application" where
  "import_api application newApplication =
     (if \<not> truthy_string (Option.bind (api newApplication) private_key)
      then newApplication
             \<lparr>api :=
                Some ((case api newApplication of
                         None \<Rightarrow> \<lparr>hooks_url = None, allowed_ips = None, private_key = None\<rparr>
                       | Some a \<Rightarrow> a)
                      \<lparr>hooks_url := depreciated_api_events_url application,
                       allowed_ips := depreciated_api_allowed_ip application,
                       private_key := depreciated_api_private_key application\<rparr>)\<rparr>
      else newApplication)"

text \<open>
  Lines 155 to 179: three \<open>try\<close> blocks. The first parses the capability string twice, for
  \<open>write\<close> and for \<open>delete\<close>, and its \<open>catch\<close> empties both.
\<close>

definition import_write_delete :: "runtime \<Rightarrow> PhpApplication \<Rightarrow> Access \<Rightarrow> Access" where
  "import_write_delete rt application a =
     (case JSON_parse rt (or_string (depreciated_capabilities application) ''[]'') of
        None \<Rightarrow> a\<lparr>write := JArray [], delete := JArray []\<rparr>
      | Some w \<Rightarrow>
          (case JSON_parse rt (or_string (depreciated_capabilities application) ''[]'') of
             None \<Rightarrow> a\<lparr>write := JArray [], delete := JArray []\<rparr>
           | Some d \<Rightarrow> a\<lparr>write := or_empty_array w, delete := or_empty_array d\<rparr>))"

definition import_read :: "runtime \<Rightarrow> PhpApplication \<Rightarrow> Access \<Rightarrow> Access" where
  "import_read rt application a =
     (case JSON_parse rt (or_string (depreciated_privileges application) ''[]'') of
        None \<Rightarrow> a\<lparr>read := JArray []\<rparr>
      | Some r \<Rightarrow> a\<lparr>read := or_empty_array r\<rparr>)"

definition import_hooks :: "runtime \<Rightarrow> PhpApplication \<Rightarrow> Access \<Rightarrow> Access" where
  "import_hooks rt application a =
     (case JSON_parse rt (or_string (depreciated_hooks application) ''[]'') of
        None \<Rightarrow> a\<lparr>hooks := JArray []\<rparr>
      | Some h \<Rightarrow> a\<lparr>hooks := or_empty_array h\<rparr>)"

definition import_access :: "runtime \<Rightarrow> PhpApplication \<Rightarrow> Application \<Rightarrow> Application" where
  "import_access rt application newApplication =
     (if (case access newApplication of None \<Rightarrow> True | Some a \<Rightarrow> False)
      then newApplication
             \<lparr>access :=
                Some (import_hooks rt application
                       (import_read rt application
                         (import_write_delete rt application
                           (case access newApplication of
                              None \<Rightarrow> \<lparr>read = JNull, write = JNull, delete = JNull, hooks = JNull\<rparr>
                            | Some a \<Rightarrow> a))))\<rparr>
      else newApplication)"

text \<open>
  Lines 181 to 184. The argument of the call is evaluated first: \<open>JSON.parse\<close> of the
  display blob (a \<open>null\<close> column is converted to the text \<open>null\<close>), outside any \<open>try\<close>.
\<close>

definition import_display :: "runtime \<Rightarrow> PhpApplication \<Rightarrow> Application \<Rightarrow> error + Application" where
  "import_display rt application newApplication =
     (case JSON_parse rt (case depreciated_display_configuration application of
                            None \<Rightarrow> ''null''
                          | Some s \<Rightarrow> s) of
        None \<Rightarrow> Inl SyntaxError
      | Some v \<Rightarrow>
          (case importDepreciatedDisplayFields newApplication (as_display_configuration rt v) of
             Inl e \<Rightarrow> Inl e
           | Inr d \<Rightarrow> Inr (newApplication\<lparr>display := Some d\<rparr>)))"

definition importDepreciatedFields ::
  "runtime \<Rightarrow> PhpApplication \<Rightarrow> int \<Rightarrow> int \<Rightarrow> error + Application"
where
  "importDepreciatedFields rt application t_created t_updated =
     import_display rt application
       (import_access rt application
         (import_api application
           (import_stats t_created t_updated
             (import_publication application
               (import_identity rt application
                 (new_Application
                    \<lparr>app_id := Some (php_id application),
                     company_id := Some (group_id application),
                     is_default := Some (php_is_default application)\<rparr>))))))"

text \<open>
  The capability rule in the words of the spec: a field is the parsed value of its own
  legacy string, and the empty sequence when the string is absent or malformed (or parses
  to a falsy value).
\<close>

definition spec_capability_field :: "runtime \<Rightarrow> string option \<Rightarrow> json" where
  "spec_capability_field rt s =
     (case JSON_parse rt (or_string s ''[]'') of
        None \<Rightarrow> JArray []
      | Some v \<Rightarrow> or_empty_array v)"

text \<open>The text that \<open>JSON.parse\<close> receives for the display blob of a legacy record.\<close>

definition display_blob :: "PhpApplication \<Rightarrow> string" where
  "display_blob application =
     (case depreciated_display_configuration application of None \<Rightarrow> ''null'' | Some s \<Rightarrow> s)"

section \<open>The store collaborator\<close>

text \<open>
  The store service \<open>marketplaceApps\<close> and the repository behind it are outside the
  controller. The stored records are kept in a list, in the order in which they were
  first saved.
\<close>

type_synonym store = "Application list"

text \<open>
  Modelled from the spec: \<open>get(id) \<rightarrow> record | absent\<close> of the store collaborator, whose
  code is missing. It returns a copy of the record stored under the id, if there is one.
\<close>

definition store_get :: "store \<Rightarrow> string \<Rightarrow> Application option" where
  "store_get st i = find (\<lambda>a. app_id a = Some i) st"

text \<open>
  Modelled from the spec: \<open>save(record) \<rightarrow> {entity}\<close> of the store collaborator, whose
  code is missing. It writes the record in place of the stored record with the same
  \<open>id\<close> column, or adds it when there is none, and returns it as the entity.
\<close>

definition store_save :: "store \<Rightarrow> Application \<Rightarrow> store \<times> Application" where
  "store_save st e =
     (if app_id e \<in> set (map app_id st)
      then (map (\<lambda>a. if app_id a = app_id e then e else a) st, e)
      else (st @ [e], e))"

section \<open>The secret of a new application\<close>

type_synonym byte = "8 word"

text \<open>
  \<open>randomBytes(n)\<close> reads \<open>n\<close> bytes of the entropy source of the call; the source is a
  parameter, \<open>rng k\<close> being its \<open>k\<close>-th byte.
\<close>

definition randomBytes :: "(nat \<Rightarrow> byte) \<Rightarrow> nat \<Rightarrow> byte list" where
  "randomBytes rng n = map rng [0..<n]"

text \<open>\<open>Buffer.toString("base64")\<close>: the standard alphabet, padded with \<open>=\<close>.\<close>

definition b64_alphabet :: string where
  "b64_alphabet = ''ABCDEFGHIJKLMNOPQRSTUVWXYZabcdefghijklmnopqrstuvwxyz0123456789+/''"

definition b64_char :: "nat \<Rightarrow> char" where
  "b64_char n = b64_alphabet ! (n mod 64)"

fun base64 :: "byte list \<Rightarrow> string" where
  "base64 [] = []"
| "base64 [a] =
     (let n = unat a * 65536
      in [b64_char (n div 262144), b64_char (n div 4096), CHR ''='', CHR ''=''])"
| "base64 [a, b] =
     (let n = unat a * 65536 + unat b * 256
      in [b64_char (n div 262144), b64_char (n div 4096), b64_char (n div 64), CHR ''=''])"
| "base64 (a # b # c # rest) =
     (let n = unat a * 65536 + unat b * 256 + unat c
      in [b64_char (n div 262144), b64_char (n div 4096), b64_char (n div 64), b64_char n]
         @ base64 rest)"

section \<open>ApplicationController.save\<close>

text \<open>
  The state that the controller acts on: the stored applications, the requests posted to
  the plugin registrar and the events forwarded to applications.
\<close>

record PluginPost =
  gitRepo :: string
  pluginId :: "string option"
  pluginSecret :: "string option"

record HookCall =
  hook_application_id :: string
  hook_connection_id :: "string option"
  hook_user_id :: string
  hook_type :: "string option"
  hook_name :: "string option"
  hook_content :: json
  hook_company_id :: string
  hook_workspace_id :: "string option"

record world =
  apps :: store
  plugin_posts :: "PluginPost list"
  hook_calls :: "HookCall list"

text \<open>
  \<open>_.isEqual\<close>, the deep comparison of lodash, on JSON values. Two objects are equal when
  they have as many keys and every key of the first is a key of the second with an equal
  value, in whatever order the keys come; two arrays are equal when they have the same
  length and equal elements at each index.
\<close>

function (sequential) json_isEqual :: "json \<Rightarrow> json \<Rightarrow> bool" where
  "json_isEqual JNull JNull = True"
| "json_isEqual (JBool a) (JBool b) = (a = b)"
| "json_isEqual (JNumber a) (JNumber b) = (a = b)"
| "json_isEqual (JString a) (JString b) = (a = b)"
| "json_isEqual (JArray xs) (JArray ys) =
     (length xs = length ys \<and> list_all (\<lambda>(x, y). json_isEqual x y) (zip xs ys))"
| "json_isEqual (JObject xs) (JObject ys) =
     (length xs = length ys \<and>
      list_all (\<lambda>(k, v). case map_of ys k of None \<Rightarrow> False | Some v' \<Rightarrow> json_isEqual v v') xs)"
| "json_isEqual a b = False"
  by pat_completeness auto
termination
proof (relation "measure (\<lambda>(a, b). size a)")
  show "wf (measure (\<lambda>(a, b). size a))" by simp
next
  fix xs ys :: "json list" and z x y
  assume "z \<in> set (zip xs ys)" and "(x, y) = z"
  then have "x \<in> set xs" by (auto dest: set_zip_leftD)
  then have "size x < Suc (size_list size xs)"
    by (induction xs) auto
  then show "((x, y), (JArray xs, JArray ys)) \<in> measure (\<lambda>(a, b). size a)" by simp
next
  fix xs ys :: "(string \<times> json) list" and z k v v'
  assume "z \<in> set xs" and "(k, v) = z"
  then have "(k, v) \<in> set xs" by simp
  then have "size v < Suc (size_list (size_prod (\<lambda>x. 0) size) xs)"
    by (induction xs) auto
  then show "((v, v'), (JObject xs, JObject ys)) \<in> measure (\<lambda>(a, b). size a)" by simp
qed

text \<open>
  \<open>_.isEqual\<close> on the records of the application. A record of the model has its fields
  by name, so their order plays no part; strings, booleans and lists of strings are
  compared as they are; JSON values inside the records are compared by
  \<open>json_isEqual\<close>. A field that is \<open>None\<close> stands for a key that is absent as well as
  for one that holds \<open>undefined\<close> or \<open>null\<close>, which lodash tells apart: where this
  comparison finds a difference, lodash finds one, and on two records that agree on
  which of their keys are present the two comparisons are the same.
\<close>

definition isEqual_Access :: "Access \<Rightarrow> Access \<Rightarrow> bool" where
  "isEqual_Access a b =
     (json_isEqual (read a) (read b) \<and> json_isEqual (write a) (write b) \<and>
      json_isEqual (delete a) (delete b) \<and> json_isEqual (hooks a) (hooks b))"

definition isEqual_FilesEditor :: "FilesEditor \<Rightarrow> FilesEditor \<Rightarrow> bool" where
  "isEqual_FilesEditor a b =
     (preview_url a = preview_url b \<and> edition_url a = edition_url b \<and>
      extensions a = extensions b \<and> json_isEqual (empty_files a) (empty_files b))"

definition isEqual_Files :: "Files \<Rightarrow> Files \<Rightarrow> bool" where
  "isEqual_Files a b =
     (rel_option isEqual_FilesEditor (editor a) (editor b) \<and>
      list_all2 json_isEqual (files_actions a) (files_actions b))"

definition isEqual_Chat :: "Chat \<Rightarrow> Chat \<Rightarrow> bool" where
  "isEqual_Chat a b =
     (input a = input b \<and> rel_option json_isEqual (commands a) (commands b) \<and>
      actions a = actions b)"

definition isEqual_Twake :: "Twake \<Rightarrow> Twake \<Rightarrow> bool" where
  "isEqual_Twake a b =
     (tab a = tab b \<and> standalone a = standalone b \<and> configuration a = configuration b \<and>
      direct a = direct b \<and> rel_option isEqual_Files (files a) (files b) \<and>
      rel_option isEqual_Chat (chat a) (chat b))"

definition isEqual_Display :: "Display \<Rightarrow> Display \<Rightarrow> bool" where
  "isEqual_Display a b = rel_option isEqual_Twake (twake a) (twake b)"

text \<open>\<open>_.pick(x, "identity", "api", "access", "display")\<close>, and \<open>_.isEqual\<close> of two picks.\<close>

definition pick :: "Application \<Rightarrow> Identity option \<times> Api option \<times> Access option \<times> Display option" where
  "pick a = (identity a, api a, access a, display a)"

fun isEqual_pick ::
  "Identity option \<times> Api option \<times> Access option \<times> Display option \<Rightarrow>
   Identity option \<times> Api option \<times> Access option \<times> Display option \<Rightarrow> bool"
where
  "isEqual_pick (i1, a1, c1, d1) (i2, a2, c2, d2) =
     (i1 = i2 \<and> a1 = a2 \<and> rel_option isEqual_Access c1 c2 \<and> rel_option isEqual_Display d1 d2)"

text \<open>
  \<open>entity.stats.version++\<close>: the version is a JavaScript number, a double that holds an
  integer. The sum is exact up to \<open>2 ^ 53\<close> in absolute value; beyond, it is rounded to
  the nearest double, which has 53 significant bits, a tie going to the even one.
\<close>

function bit_length :: "int \<Rightarrow> nat" where
  "bit_length n = (if n \<le> 0 then 0 else Suc (bit_length (n div 2)))"
  by pat_completeness auto
termination
  by (relation "measure nat") auto

definition round_double :: "int \<Rightarrow> int" where
  "round_double n =
     (if \<bar>n\<bar> \<le> 2 ^ 53 then n
      else (let u = 2 ^ (bit_length \<bar>n\<bar> - 53); q = n div u; r = n mod u
            in if 2 * r < u \<or> 2 * r = u \<and> even q then q * u else (q + 1) * u))"

definition js_increment :: "int \<Rightarrow> int" where
  "js_increment v = round_double (v + 1)"

text \<open>
  Lines 310 to 336, after the record is stored. Reading \<open>app.identity.repository\<close> of a
  request without identity throws; the post itself is inside a \<open>try\<close> whose \<open>catch\<close>
  only logs, and nothing waits for its answer.
\<close>

definition sync_plugins :: "world \<Rightarrow> Application \<Rightarrow> Application \<Rightarrow> world \<times> (error + Application)" where
  "sync_plugins w app_body entity =
     (case identity app_body of
        None \<Rightarrow> (w, Inl TypeError)
      | Some i \<Rightarrow>
          (case repository i of
             None \<Rightarrow> (w, Inr entity)
           | Some r \<Rightarrow>
               if r \<noteq> []
               then (case api entity of
                       None \<Rightarrow> (w, Inr entity)
                     | Some a \<Rightarrow>
                         (w\<lparr>plugin_posts := plugin_posts w @
                               [\<lparr>gitRepo = r, pluginId = app_id entity,
                                 pluginSecret = private_key a\<rparr>]\<rparr>,
                          Inr entity))
               else (w, Inr entity)))"

text \<open>Lines 264 to 267: the publication of the stored entity after the request's \<open>requested\<close>.\<close>

definition apply_requested :: "Publication \<Rightarrow> Publication \<Rightarrow> Publication" where
  "apply_requested ep ap =
     (let ep1 = ep\<lparr>requested := requested ap\<rparr>
      in if requested ap = False then ep1\<lparr>published := False\<rparr> else ep1)"

text \<open>Lines 253 to 292: the request names an application.\<close>

definition save_update :: "world \<Rightarrow> string \<Rightarrow> Application \<Rightarrow> int \<Rightarrow> world \<times> (error + Application)" where
  "save_update w application_id app_body now =
     (case store_get (apps w) application_id of
        None \<Rightarrow> (w, Inl (NotFound ''Application not found''))
      | Some entity \<Rightarrow>
          (case publication entity of
             None \<Rightarrow> (w, Inl TypeError)
           | Some ep \<Rightarrow>
          (case publication app_body of
             None \<Rightarrow> (w, Inl TypeError)
           | Some ap \<Rightarrow>
               (let ep2 = apply_requested ep ap;
                    entity1 = entity\<lparr>publication := Some ep2\<rparr>
                in if published ep2 \<and> \<not> isEqual_pick (pick entity1) (pick app_body)
                   then (w, Inl (BadRequest ''You can't update applications details while it published''))
                   else
                     (case api entity1 of
                        None \<Rightarrow> (w, Inl TypeError)
                      | Some ea \<Rightarrow>
                     (case api app_body of
                        None \<Rightarrow> (w, Inl TypeError)
                      | Some aa \<Rightarrow>
                          (let entity2 = entity1
                                 \<lparr>identity := identity app_body,
                                  api := Some (ea\<lparr>hooks_url := hooks_url aa,
                                                  allowed_ips := allowed_ips aa\<rparr>),
                                  access := access app_body,
                                  display := display app_body\<rparr>
                           in case stats entity2 of
                                None \<Rightarrow> (w, Inl TypeError)
                              | Some s \<Rightarrow>
                                  (let entity3 = entity2
                                         \<lparr>stats := Some (s\<lparr>updated_at := now,
                                                            version := js_increment (version s)\<rparr>)\<rparr>;
                                       res = store_save (apps w) entity3
                                   in sync_plugins (w\<lparr>apps := fst res\<rparr>) app_body (snd res)))))))))"

text \<open>Lines 293 to 308: the request names no application.\<close>

definition save_insert :: "world \<Rightarrow> Application \<Rightarrow> int \<Rightarrow> (nat \<Rightarrow> byte) \<Rightarrow> world \<times> (error + Application)" where
  "save_insert w app_body now rng =
     (let app1 = app_body\<lparr>is_default := Some False\<rparr>
      in case publication app1 of
           None \<Rightarrow> (w, Inl TypeError)
         | Some p \<Rightarrow>
             (let app2 = app1\<lparr>publication := Some (p\<lparr>published := False\<rparr>)\<rparr>
              in case api app2 of
                   None \<Rightarrow> (w, Inl TypeError)
                 | Some a \<Rightarrow>
                     (let app3 = app2\<lparr>api := Some (a\<lparr>private_key := Some (base64 (randomBytes rng 32))\<rparr>)\<rparr>;
                          app4 = app3\<lparr>stats := Some \<lparr>created_at = now, updated_at = now, version = 0\<rparr>\<rparr>;
                          res = store_save (apps w) app4
                      in sync_plugins (w\<lparr>apps := fst res\<rparr>) app4 (snd res))))"

text \<open>
  \<open>save\<close>: \<open>application_id\<close> is the route parameter, \<open>app_body\<close> the resource of the
  request body, \<open>now\<close> the reading of the clock at line 247 and \<open>rng\<close> the entropy source.
  The result is the new state and either the error thrown or the stored entity, which is
  the resource of the answer.
\<close>

definition save ::
  "world \<Rightarrow> string option \<Rightarrow> Application \<Rightarrow> int \<Rightarrow> (nat \<Rightarrow> byte) \<Rightarrow> world \<times> (error + Application)"
where
  "save w application_id app_body now rng =
     (if truthy_string application_id
      then save_update w (or_string application_id []) app_body now
      else save_insert w app_body now rng)"

text \<open>A sequence of update requests to one application, stopped by the first that throws.\<close>

fun save_updates :: "world \<Rightarrow> string \<Rightarrow> (Application \<times> int) list \<Rightarrow> (nat \<Rightarrow> byte) \<Rightarrow> world \<times> (error + unit)" where
  "save_updates w i [] rng = (w, Inr ())"
| "save_updates w i ((app_body, now) # reqs) rng =
     (case save w (Some i) app_body now rng of
        (w', Inl e) \<Rightarrow> (w', Inl e)
      | (w', Inr entity) \<Rightarrow> save_updates w' i reqs rng)"

section \<open>ApplicationController.migrate\<close>

definition replaceExisting :: bool where
  "replaceExisting = True"

text \<open>
  Lines 366 to 381, the records of one page. \<open>clock\<close> gives the readings of \<open>Date.now()\<close>
  in order and \<open>k\<close> counts the readings made so far; \<open>entities\<close> is the list returned at
  the end. Nothing catches an error of the importer: it leaves the loops.
\<close>

fun migrate_records ::
  "runtime \<Rightarrow> (nat \<Rightarrow> int) \<Rightarrow> world \<Rightarrow> nat \<Rightarrow> Application list \<Rightarrow> PhpApplication list
     \<Rightarrow> world \<times> (error + nat \<times> Application list)"
where
  "migrate_records rt clock w k entities [] = (w, Inr (k, entities))"
| "migrate_records rt clock w k entities (application # rest) =
     (if store_get (apps w) (php_id application) = None \<or> replaceExisting
      then (case importDepreciatedFields rt application (clock k) (clock (k + 1)) of
              Inl e \<Rightarrow> (w, Inl e)
            | Inr newApplication \<Rightarrow>
                (let res = store_save (apps w) newApplication
                 in migrate_records rt clock (w\<lparr>apps := fst res\<rparr>) (k + 2)
                      (entities @ [snd res]) rest))
      else migrate_records rt clock w k entities rest)"

text \<open>
  Lines 362 to 382: the legacy repository is read page by page until a page comes without
  a token for the next one; \<open>pages\<close> are the pages it returns, in order.
\<close>

fun migrate_pages ::
  "runtime \<Rightarrow> (nat \<Rightarrow> int) \<Rightarrow> world \<Rightarrow> nat \<Rightarrow> Application list \<Rightarrow> PhpApplication list list
     \<Rightarrow> world \<times> (error + nat \<times> Application list)"
where
  "migrate_pages rt clock w k entities [] = (w, Inr (k, entities))"
| "migrate_pages rt clock w k entities (page # pages) =
     (case migrate_records rt clock w k entities page of
        (w', Inl e) \<Rightarrow> (w', Inl e)
      | (w', Inr (k', entities')) \<Rightarrow> migrate_pages rt clock w' k' entities' pages)"

text \<open>
  Lines 354 to 391: the \<open>catch\<close> logs the error and throws it again; without an error
  the entities are the resource of the answer.
\<close>

definition migrate ::
  "runtime \<Rightarrow> (nat \<Rightarrow> int) \<Rightarrow> world \<Rightarrow> PhpApplication list list \<Rightarrow> world \<times> (error + Application list)"
where
  "migrate rt clock w pages =
     (case migrate_pages rt clock w 0 [] pages of
        (w', Inl e) \<Rightarrow> (w', Inl e)
      | (w', Inr (k, entities)) \<Rightarrow> (w', Inr entities))"

section \<open>ApplicationController.event\<close>

record ApplicationEventRequestBody =
  body_company_id :: string
  body_workspace_id :: "string option"
  body_connection_id :: "string option"
  body_type :: "string option"
  body_name :: "string option"
  body_data :: json

record CompanyUser =
  role :: string

text \<open>
  The services that \<open>event\<close> calls, as parameters: the membership of a user in a company,
  the installation of an application in a company, and the answer of the application to a
  forwarded event.
\<close>

record services =
  getCompanyUser :: "string \<Rightarrow> string \<Rightarrow> CompanyUser option"
  companyApps_get :: "string \<Rightarrow> string \<Rightarrow> json option"
  notifyApp :: "HookCall \<Rightarrow> json"

text \<open>
  The three services are asynchronous (the other handlers of the controller await
  \<open>getCompanyUser\<close>, and the spec counts role lookups among the points where an operation
  suspends): a call returns a promise. \<open>await\<close> gives the value it resolves to; the
  promise itself is an object, and an object is truthy.
\<close>

datatype 'a promise = Promise 'a

fun await :: "'a promise \<Rightarrow> 'a" where
  "await (Promise x) = x"

fun truthy_promise :: "'a promise \<Rightarrow> bool" where
  "truthy_promise (Promise x) = True"

text \<open>
  Lines 434 to 492. The application and the installation are awaited; the membership, at
  lines 456 to 459, is not: \<open>companyUser\<close> is the promise.
\<close>

definition event ::
  "services \<Rightarrow> world \<Rightarrow> string \<Rightarrow> ApplicationEventRequestBody \<Rightarrow> string \<Rightarrow> world \<times> (error + json)"
where
  "event sv w application_id body user_id =
     (case await (Promise (store_get (apps w) application_id)) of
        None \<Rightarrow> (w, Inl (NotFound ''Application not found''))
      | Some applicationEntity \<Rightarrow>
          (let companyUser = Promise (getCompanyUser sv (body_company_id body) user_id)
           in if \<not> truthy_promise companyUser
              then (w, Inl (BadRequest ''You cannot send event to an application from another company''))
              else
                (case await (Promise (companyApps_get sv (body_company_id body) application_id)) of
                   None \<Rightarrow> (w, Inl (BadRequest ''Application isn't installed in this company''))
                 | Some applicationInCompany \<Rightarrow>
                     (let call = \<lparr>hook_application_id = application_id,
                                  hook_connection_id = body_connection_id body,
                                  hook_user_id = user_id,
                                  hook_type = body_type body,
                                  hook_name = body_name body,
                                  hook_content = body_data body,
                                  hook_company_id = body_company_id body,
                                  hook_workspace_id = body_workspace_id body\<rparr>
                      in (w\<lparr>hook_calls := hook_calls w @ [call]\<rparr>, Inr (notifyApp sv call))))))"

section \<open>What the claims observe\<close>

text \<open>The version and the private key of the record stored under an id.\<close>

definition stored_version :: "world \<Rightarrow> string \<Rightarrow> int option" where
  "stored_version w i = map_option version (Option.bind (store_get (apps w) i) stats)"

definition stored_private_key :: "world \<Rightarrow> string \<Rightarrow> string option" where
  "stored_private_key w i = Option.bind (Option.bind (store_get (apps w) i) api) private_key"

definition stored_publication :: "world \<Rightarrow> string \<Rightarrow> Publication option" where
  "stored_publication w i = Option.bind (store_get (apps w) i) publication"


text \<open>The application that the importer has built when it reaches the display blob.\<close>

definition imported_before_display :: "runtime \<Rightarrow> PhpApplication \<Rightarrow> int \<Rightarrow> int \<Rightarrow> Application" where
  "imported_before_display rt p t1 t2 =
     \<lparr>app_id = Some (php_id p), company_id = Some (group_id p),
      is_default = Some (php_is_default p),
      identity =
        Some \<lparr>code =
                (if truthy_string (depreciated_simple_name p)
                 then or_string (depreciated_simple_name p) []
                 else toLocaleLowerCase rt (or_string (depreciated_name p) [])),
              name = depreciated_name p, icon = depreciated_icon_url p,
              description = depreciated_description p, website = ''http://twake.app/'',
              categories = [], compatibility = [''twake''], repository = None\<rparr>,
      publication =
        Some \<lparr>published = depreciated_is_available_to_public p,
              requested = (depreciated_public p \<and> \<not> depreciated_twake_team_validation p)\<rparr>,
      stats = Some \<lparr>created_at = t1, updated_at = t2, version = 1\<rparr>,
      api = Some \<lparr>hooks_url = depreciated_api_events_url p,
                 allowed_ips = depreciated_api_allowed_ip p,
                 private_key = depreciated_api_private_key p\<rparr>,
      access =
        Some \<lparr>read = spec_capability_field rt (depreciated_privileges p),
              write = spec_capability_field rt (depreciated_capabilities p),
              delete = spec_capability_field rt (depreciated_capabilities p),
              hooks = spec_capability_field rt (depreciated_hooks p)\<rparr>,
      display = None\<rparr>"

section \<open>Sample data\<close>

definition ex_identity :: Identity where
  "ex_identity =
     \<lparr>code = ''foo'', name = Some ''Foo'', icon = None, description = None,
      website = ''http://twake.app/'', categories = [], compatibility = [''twake''],
      repository = None\<rparr>"

definition ex_api :: Api where
  "ex_api = \<lparr>hooks_url = None, allowed_ips = None, private_key = Some ''k0''\<rparr>"

definition ex_access :: Access where
  "ex_access = \<lparr>read = JArray [], write = JArray [], delete = JArray [], hooks = JArray []\<rparr>"

text \<open>A stored application that is published.\<close>

definition ex_published :: Application where
  "ex_published =
     \<lparr>app_id = Some ''app1'', company_id = Some ''c1'', is_default = Some False,
      identity = Some ex_identity,
      publication = Some \<lparr>published = True, requested = True\<rparr>,
      stats = Some \<lparr>created_at = 1, updated_at = 1, version = 0\<rparr>,
      api = Some ex_api, access = Some ex_access, display = Some \<lparr>twake = None\<rparr>\<rparr>"

definition ex_world :: world where
  "ex_world = \<lparr>apps = [ex_published], plugin_posts = [], hook_calls = []\<rparr>"

text \<open>Requests on it: a new name; a new private key; the same with the request withdrawn.\<close>

definition ex_rename :: Application where
  "ex_rename = ex_published\<lparr>identity := Some (ex_identity\<lparr>name := Some ''Bar''\<rparr>)\<rparr>"

definition ex_other_key :: Application where
  "ex_other_key = ex_published\<lparr>api := Some (ex_api\<lparr>private_key := Some ''other''\<rparr>)\<rparr>"

definition ex_withdraw :: Application where
  "ex_withdraw = ex_published\<lparr>publication := Some \<lparr>published = True, requested = False\<rparr>\<rparr>"

definition ex_withdraw_rename :: Application where
  "ex_withdraw_rename = ex_rename\<lparr>publication := Some \<lparr>published = True, requested = False\<rparr>\<rparr>"

definition ex_withdraw_other_key :: Application where
  "ex_withdraw_other_key =
     ex_other_key\<lparr>publication := Some \<lparr>published = True, requested = False\<rparr>\<rparr>"

text \<open>
  The same application with a chat command in its display, and the request that sends
  it back with the keys of the command in the other order.
\<close>

definition ex_with_command :: Application where
  "ex_with_command =
     ex_published
       \<lparr>display :=
          Some \<lparr>twake =
                  Some (empty_Twake
                          \<lparr>chat :=
                             Some \<lparr>input = None,
                                   commands =
                                     Some (JArray
                                       [JObject [(''command'', JString ''poll''),
                                                 (''description'', JString ''Start a poll'')]]),
                                   actions = None\<rparr>\<rparr>)\<rparr>\<rparr>"

definition ex_command_reordered :: Application where
  "ex_command_reordered =
     ex_published
       \<lparr>display :=
          Some \<lparr>twake =
                  Some (empty_Twake
                          \<lparr>chat :=
                             Some \<lparr>input = None,
                                   commands =
                                     Some (JArray
                                       [JObject [(''description'', JString ''Start a poll''),
                                                 (''command'', JString ''poll'')]]),
                                   actions = None\<rparr>\<rparr>)\<rparr>\<rparr>"

text \<open>A stored application, not published, whose version is \<open>2 ^ 53\<close>.\<close>

definition ex_saturated :: Application where
  "ex_saturated =
     ex_published
       \<lparr>publication := Some \<lparr>published = False, requested = False\<rparr>,
        stats := Some \<lparr>created_at = 1, updated_at = 1, version = 2 ^ 53\<rparr>\<rparr>"

definition ex_saturated_world :: world where
  "ex_saturated_world = \<lparr>apps = [ex_saturated], plugin_posts = [], hook_calls = []\<rparr>"

definition zero_rng :: "nat \<Rightarrow> byte" where
  "zero_rng k = 0"

text \<open>
  The draft of the spec's scenario A, \<open>{identity: {name: "Foo"}, publication: {requested: false}}\<close>,
  and a draft with every object, which sets the fields that create overwrites.
\<close>

definition ex_draft :: Application where
  "ex_draft =
     new_Application
       \<lparr>identity := Some ex_identity,
        publication := Some \<lparr>published = False, requested = False\<rparr>\<rparr>"

definition ex_full_draft :: Application where
  "ex_full_draft =
     ex_draft
       \<lparr>app_id := Some ''app2'',
        is_default := Some True,
        publication := Some \<lparr>published = True, requested = False\<rparr>,
        stats := Some \<lparr>created_at = 5, updated_at = 5, version = 9\<rparr>,
        api := Some \<lparr>hooks_url = None, allowed_ips = None, private_key = Some ''chosen''\<rparr>\<rparr>"

text \<open>
  A run time for the examples: \<open>JSON.parse\<close> on the texts that occur in them (every
  other text of the examples is malformed), ASCII lower case, and a reading of the
  tab, standalone and configuration entries of a parsed display blob.
\<close>

definition ex_JSON_parse :: "string \<Rightarrow> json option" where
  "ex_JSON_parse s =
     (if s = ''[]'' then Some (JArray [])
      else if s = ''null'' then Some JNull
      else if s = ''{}'' then Some (JObject [])
      else if s = ''[1]'' then Some (JArray [JNumber 1])
      else None)"

definition ex_lower :: "string \<Rightarrow> string" where
  "ex_lower s =
     map (\<lambda>c. if (65::nat) \<le> of_char c \<and> of_char c \<le> (90::nat)
              then char_of (of_char c + (32::nat)) else c) s"

fun json_field :: "json \<Rightarrow> string \<Rightarrow> json option" where
  "json_field (JObject kvs) k = map_of kvs k"
| "json_field v k = None"

fun json_string :: "json option \<Rightarrow> string option" where
  "json_string (Some (JString s)) = Some s"
| "json_string v = None"

definition truthy_field :: "json \<Rightarrow> string \<Rightarrow> json option" where
  "truthy_field v k =
     (case json_field v k of None \<Rightarrow> None | Some t \<Rightarrow> if truthy_json t then Some t else None)"

definition ex_as_display_configuration :: "json \<Rightarrow> DepreciatedDisplayConfiguration option" where
  "ex_as_display_configuration v =
     (if v = JNull then None
      else Some
        \<lparr>channel_tab =
           map_option (\<lambda>t. \<lparr>tab_iframe = json_string (json_field t ''iframe'')\<rparr>)
             (truthy_field v ''channel_tab''),
         app =
           map_option (\<lambda>t. \<lparr>app_iframe = json_string (json_field t ''iframe'')\<rparr>)
             (truthy_field v ''app''),
         legacy_configuration =
           map_option
             (\<lambda>c. \<lparr>can_configure_in_workspace =
                      map_option truthy_json (json_field c ''can_configure_in_workspace''),
                    can_configure_in_channel =
                      map_option truthy_json (json_field c ''can_configure_in_channel'')\<rparr>)
             (truthy_field v ''configuration''),
         member_app = map_option truthy_json (json_field v ''member_app''),
         drive_module = None,
         messages_module = None\<rparr>)"

definition ex_runtime :: runtime where
  "ex_runtime =
     \<lparr>JSON_parse = ex_JSON_parse, toLocaleLowerCase = ex_lower,
      as_display_configuration = ex_as_display_configuration\<rparr>"

text \<open>Legacy records: one whose capability strings are not JSON, one whose display blob is not.\<close>

definition ex_legacy :: PhpApplication where
  "ex_legacy =
     \<lparr>php_id = ''old1'', group_id = ''c1'', php_is_default = False,
      depreciated_simple_name = None, depreciated_name = Some ''Legacy'',
      depreciated_icon_url = None, depreciated_description = None,
      depreciated_is_available_to_public = False, depreciated_public = False,
      depreciated_twake_team_validation = False,
      depreciated_api_events_url = None, depreciated_api_allowed_ip = None,
      depreciated_api_private_key = Some ''legacy-key'',
      depreciated_capabilities = Some ''not json'',
      depreciated_privileges = Some ''not json'',
      depreciated_hooks = Some ''not json'',
      depreciated_display_configuration = Some ''{}''\<rparr>"

definition ex_legacy_bad_display :: PhpApplication where
  "ex_legacy_bad_display =
     ex_legacy\<lparr>php_id := ''old0'', depreciated_display_configuration := Some ''not json''\<rparr>"

definition ex_clock :: "nat \<Rightarrow> int" where
  "ex_clock k = 100 + int k"

definition ex_empty_world :: world where
  "ex_empty_world = \<lparr>apps = [], plugin_posts = [], hook_calls = []\<rparr>"

text \<open>
  Legacy display configurations: a channel tab and a standalone entry without iframe, and
  both levels of configuration allowed.
\<close>

definition ex_display_no_iframe :: DepreciatedDisplayConfiguration where
  "ex_display_no_iframe =
     \<lparr>channel_tab = Some \<lparr>tab_iframe = None\<rparr>, app = Some \<lparr>app_iframe = None\<rparr>,
      legacy_configuration = None, member_app = None, drive_module = None,
      messages_module = None\<rparr>"

definition ex_display_both_levels :: DepreciatedDisplayConfiguration where
  "ex_display_both_levels =
     \<lparr>channel_tab = None, app = None,
      legacy_configuration =
        Some \<lparr>can_configure_in_workspace = Some True, can_configure_in_channel = Some True\<rparr>,
      member_app = Some True, drive_module = None, messages_module = None\<rparr>"

text \<open>
  An event for company \<open>c2\<close> from a user who is a member of no company, while the
  application is installed in every company.
\<close>

definition ex_services :: services where
  "ex_services =
     \<lparr>getCompanyUser = (\<lambda>company user. None),
      companyApps_get = (\<lambda>company application. Some (JObject [])),
      notifyApp = (\<lambda>call. JString ''ok'')\<rparr>"

definition ex_event_body :: ApplicationEventRequestBody where
  "ex_event_body =
     \<lparr>body_company_id = ''c2'', body_workspace_id = None, body_connection_id = None,
      body_type = Some ''action'', body_name = Some ''open'', body_data = JNull\<rparr>"

section \<open>The store\<close>

lemma store_save_snd: "snd (store_save st e) = e"
  by (simp add: store_save_def)

lemma find_append_cases:
  "find P (xs @ ys) = (case find P xs of None \<Rightarrow> find P ys | Some x \<Rightarrow> Some x)"
  by (induction xs) auto

lemma find_None_notin: "k \<notin> set (map f xs) \<Longrightarrow> find (\<lambda>a. f a = k) xs = None"
  by (induction xs) auto

lemma find_replace_same:
  "f e = k \<Longrightarrow> k \<in> set (map f xs) \<Longrightarrow>
     find (\<lambda>a. f a = k) (map (\<lambda>a. if f a = k then e else a) xs) = Some e"
  by (induction xs) auto

lemma find_replace_other:
  "f e \<noteq> j \<Longrightarrow>
     find (\<lambda>a. f a = j) (map (\<lambda>a. if f a = f e then e else a) xs) = find (\<lambda>a. f a = j) xs"
  by (induction xs) auto

lemma store_get_save_same:
  "app_id e = Some i \<Longrightarrow> store_get (fst (store_save st e)) i = Some e"
  using find_replace_same [of app_id e "Some i" st] find_None_notin [of "Some i" app_id st]
  by (simp add: store_get_def store_save_def find_append_cases)

lemma store_get_save_other:
  "app_id e \<noteq> Some j \<Longrightarrow> store_get (fst (store_save st e)) j = store_get st j"
  using find_replace_other [of app_id e "Some j" st]
  by (simp add: store_get_def store_save_def find_append_cases split: option.splits)

lemma store_get_app_id: "store_get st i = Some a \<Longrightarrow> app_id a = Some i"
  by (auto simp: store_get_def dest: find_Some_iff[THEN iffD1])

lemma store_save_mem: "e \<in> set (fst (store_save st e))"
  by (auto simp: store_save_def)

section \<open>The secret\<close>

lemma length_base64: "length (base64 bs) = 4 * ((length bs + 2) div 3)"
proof (induction bs rule: base64.induct)
  case (4 a b c rest)
  have "(length (a # b # c # rest) + 2) div 3 = Suc ((length rest + 2) div 3)"
    by simp
  with 4 show ?case by (simp add: Let_def)
qed (simp_all add: Let_def)

lemma length_randomBytes: "length (randomBytes rng n) = n"
  by (simp add: randomBytes_def)

section \<open>The version as a double\<close>

lemma bit_length_pos: "0 < n \<Longrightarrow> bit_length n = Suc (bit_length (n div 2))"
  by (subst bit_length.simps) simp

lemma bit_length_bounds: "2 ^ k \<le> n \<Longrightarrow> n < 2 ^ Suc k \<Longrightarrow> bit_length n = Suc k"
proof (induction k arbitrary: n)
  case 0
  then have "n = 1" by simp
  then show ?case by (simp add: bit_length_pos bit_length.simps [of 0])
next
  case (Suc k)
  then have "2 ^ k \<le> n div 2" "n div 2 < 2 ^ Suc k" by auto
  from Suc.IH [OF this] have "bit_length (n div 2) = Suc k" .
  moreover from Suc.prems have "0 < n"
    by (meson less_le_trans zero_less_numeral zero_less_power)
  ultimately show ?case by (simp add: bit_length_pos)
qed

lemma js_increment_exact:
  assumes "- (2 ^ 53) \<le> v" and "v < 2 ^ 53"
  shows "js_increment v = v + 1"
proof -
  from assms have "\<bar>v + 1\<bar> \<le> 2 ^ 53" by simp
  then show ?thesis by (simp only: js_increment_def round_double_def if_True)
qed

lemma js_increment_saturated: "js_increment (2 ^ 53) = 2 ^ 53"
proof -
  have "bit_length \<bar>2 ^ 53 + 1 :: int\<bar> = Suc 53"
    by (rule bit_length_bounds) simp_all
  then show ?thesis by (simp add: js_increment_def round_double_def Let_def)
qed

lemma js_increment_saturated_numeral:
  "js_increment 9007199254740992 = 9007199254740992"
  using js_increment_saturated by simp

lemma js_increment_small: "js_increment 0 = 1" "js_increment 1 = 2"
  by (simp_all add: js_increment_exact)

section \<open>save\<close>

lemma pick_publication: "pick (a\<lparr>publication := p\<rparr>) = pick a"
  by (simp add: pick_def)

lemma sync_plugins_cases:
  "sync_plugins w app_body entity = (w', r) \<Longrightarrow>
     apps w' = apps w \<and> hook_calls w' = hook_calls w \<and>
     (r = Inr entity \<and> identity app_body \<noteq> None \<or>
      r = Inl TypeError \<and> identity app_body = None \<and> w' = w)"
  by (auto simp: sync_plugins_def split: option.splits if_splits)

lemma sync_plugins_Inr:
  "identity app_body = Some i \<Longrightarrow>
     snd (sync_plugins w app_body entity) = Inr entity \<and>
     apps (fst (sync_plugins w app_body entity)) = apps w"
  by (auto simp: sync_plugins_def split: option.splits if_splits)

lemma save_update_frozen:
  assumes "store_get (apps w) i = Some old" and "publication old = Some ep" and "published ep"
    and "publication app_body = Some ap" and "requested ap"
    and "\<not> isEqual_pick (pick old) (pick app_body)"
  shows "save_update w i app_body now =
           (w, Inl (BadRequest ''You can't update applications details while it published''))"
  using assms by (simp add: save_update_def Let_def apply_requested_def pick_publication)

lemma save_update_success:
  assumes "save_update w i app_body now = (w', Inr e)"
  shows "\<exists>old ep ap ea aa s.
           store_get (apps w) i = Some old \<and> publication old = Some ep \<and>
           publication app_body = Some ap \<and> api old = Some ea \<and> api app_body = Some aa \<and>
           stats old = Some s \<and>
           e = old\<lparr>publication := Some (apply_requested ep ap),
                   identity := identity app_body,
                   api := Some (ea\<lparr>hooks_url := hooks_url aa, allowed_ips := allowed_ips aa\<rparr>),
                   access := access app_body,
                   display := display app_body,
                   stats := Some (s\<lparr>updated_at := now, version := js_increment (version s)\<rparr>)\<rparr> \<and>
           apps w' = fst (store_save (apps w) e) \<and> hook_calls w' = hook_calls w"
proof -
  from assms obtain old where old: "store_get (apps w) i = Some old"
    by (auto simp: save_update_def split: option.splits)
  from assms old obtain ep where ep: "publication old = Some ep"
    by (auto simp: save_update_def split: option.splits)
  from assms old ep obtain ap where ap: "publication app_body = Some ap"
    by (auto simp: save_update_def split: option.splits)
  from assms old ep ap obtain ea where ea: "api old = Some ea"
    by (auto simp: save_update_def Let_def split: option.splits if_splits)
  from assms old ep ap ea obtain aa where aa: "api app_body = Some aa"
    by (auto simp: save_update_def Let_def split: option.splits if_splits)
  from assms old ep ap ea aa obtain s where s: "stats old = Some s"
    by (auto simp: save_update_def Let_def split: option.splits if_splits)
  let ?e = "old\<lparr>publication := Some (apply_requested ep ap),
                   identity := identity app_body,
                   api := Some (ea\<lparr>hooks_url := hooks_url aa, allowed_ips := allowed_ips aa\<rparr>),
                   access := access app_body,
                   display := display app_body,
                   stats := Some (s\<lparr>updated_at := now, version := js_increment (version s)\<rparr>)\<rparr>"
  from assms old ep ap ea aa s
  have "sync_plugins (w\<lparr>apps := fst (store_save (apps w) ?e)\<rparr>) app_body ?e = (w', Inr e)"
    by (auto simp: save_update_def Let_def store_save_snd split: if_splits)
  from sync_plugins_cases [OF this]
  have "e = ?e" "apps w' = fst (store_save (apps w) ?e)" "hook_calls w' = hook_calls w"
    by auto
  with old ep ap ea aa s show ?thesis by blast
qed

text \<open>What a successful update leaves in the store.\<close>

lemma save_update_stored:
  assumes "save_update w i app_body now = (w', Inr e)"
  shows "store_get (apps w') i = Some e"
    and "j \<noteq> i \<Longrightarrow> store_get (apps w') j = store_get (apps w) j"
    and "stored_version w' i = map_option js_increment (stored_version w i)"
    and "stored_version w' i = map_option version (stats e)"
    and "stored_version w' i \<noteq> None"
    and "stored_private_key w' i = stored_private_key w i"
proof -
  from save_update_success [OF assms]
  obtain old and ep :: Publication and ap :: Publication and ea and aa :: Api and s where
    old: "store_get (apps w) i = Some old" and ea: "api old = Some ea" and s: "stats old = Some s"
    and e: "e = old\<lparr>publication := Some (apply_requested ep ap),
                   identity := identity app_body,
                   api := Some (ea\<lparr>hooks_url := hooks_url aa, allowed_ips := allowed_ips aa\<rparr>),
                   access := access app_body,
                   display := display app_body,
                   stats := Some (s\<lparr>updated_at := now, version := js_increment (version s)\<rparr>)\<rparr>"
    and w': "apps w' = fst (store_save (apps w) e)"
    by blast
  have id: "app_id e = Some i" using store_get_app_id [OF old] e by simp
  show got: "store_get (apps w') i = Some e"
    using store_get_save_same [OF id] w' by simp
  show "j \<noteq> i \<Longrightarrow> store_get (apps w') j = store_get (apps w) j"
    using store_get_save_other [of e j "apps w"] id w' by simp
  show "stored_version w' i = map_option js_increment (stored_version w i)"
    using got old s e by (simp add: stored_version_def)
  show "stored_version w' i = map_option version (stats e)"
    using got by (simp add: stored_version_def)
  show "stored_version w' i \<noteq> None"
    using got e by (simp add: stored_version_def)
  show "stored_private_key w' i = stored_private_key w i"
    using got old ea e by (simp add: stored_private_key_def)
qed

lemma save_Some: "i \<noteq> [] \<Longrightarrow> save w (Some i) app_body now rng = save_update w i app_body now"
  by (simp add: save_def)

lemma save_updates_private_key:
  "i \<noteq> [] \<Longrightarrow> save_updates w i reqs rng = (w', Inr ()) \<Longrightarrow>
     stored_private_key w' i = stored_private_key w i"
proof (induction reqs arbitrary: w)
  case Nil
  then show ?case by simp
next
  case (Cons r reqs)
  obtain app_body now where r: "r = (app_body, now)" by (cases r)
  from Cons.prems r obtain w1 e where
    step: "save_update w i app_body now = (w1, Inr e)" and rest: "save_updates w1 i reqs rng = (w', Inr ())"
    by (auto simp: save_Some split: prod.splits sum.splits)
  from Cons.IH [OF Cons.prems(1) rest] save_update_stored(6) [OF step]
  show ?case by simp
qed

lemma save_updates_version:
  "i \<noteq> [] \<Longrightarrow> save_updates w i reqs rng = (w', Inr ()) \<Longrightarrow>
     stored_version w i = Some v \<Longrightarrow> - (2 ^ 53) \<le> v \<Longrightarrow> v + int (length reqs) \<le> 2 ^ 53 \<Longrightarrow>
     stored_version w' i = Some (v + int (length reqs))"
proof (induction reqs arbitrary: w v)
  case Nil
  then show ?case by simp
next
  case (Cons r reqs)
  obtain app_body now where r: "r = (app_body, now)" by (cases r)
  from Cons.prems r obtain w1 e where
    step: "save_update w i app_body now = (w1, Inr e)" and rest: "save_updates w1 i reqs rng = (w', Inr ())"
    by (auto simp: save_Some split: prod.splits sum.splits)
  from Cons.prems have "js_increment v = v + 1" by (intro js_increment_exact) simp_all
  with save_update_stored(3) [OF step] Cons.prems(3)
  have v1: "stored_version w1 i = Some (v + 1)" by simp
  from Cons.IH [OF Cons.prems(1) rest v1] Cons.prems(4,5)
  show ?case by simp
qed

lemma save_insert_result:
  assumes "identity draft = Some idn" and "publication draft = Some p" and "api draft = Some a"
  shows "snd (save_insert w draft now rng) =
           Inr (draft\<lparr>is_default := Some False,
                      publication := Some (p\<lparr>published := False\<rparr>),
                      api := Some (a\<lparr>private_key := Some (base64 (randomBytes rng 32))\<rparr>),
                      stats := Some \<lparr>created_at = now, updated_at = now, version = 0\<rparr>\<rparr>)"
    and "apps (fst (save_insert w draft now rng)) =
           fst (store_save (apps w)
             (draft\<lparr>is_default := Some False,
                      publication := Some (p\<lparr>published := False\<rparr>),
                      api := Some (a\<lparr>private_key := Some (base64 (randomBytes rng 32))\<rparr>),
                      stats := Some \<lparr>created_at = now, updated_at = now, version = 0\<rparr>\<rparr>))"
  using assms sync_plugins_Inr
  by (simp_all add: save_insert_def Let_def store_save_snd)

lemma save_insert_success:
  assumes "save_insert w draft now rng = (w', Inr e)"
  shows "\<exists>p a. publication draft = Some p \<and> api draft = Some a \<and>
           e = draft\<lparr>is_default := Some False,
                      publication := Some (p\<lparr>published := False\<rparr>),
                      api := Some (a\<lparr>private_key := Some (base64 (randomBytes rng 32))\<rparr>),
                      stats := Some \<lparr>created_at = now, updated_at = now, version = 0\<rparr>\<rparr> \<and>
           apps w' = fst (store_save (apps w) e)"
proof -
  from assms obtain p where p: "publication draft = Some p"
    by (auto simp: save_insert_def Let_def split: option.splits)
  from assms p obtain a where a: "api draft = Some a"
    by (auto simp: save_insert_def Let_def split: option.splits)
  let ?e = "draft\<lparr>is_default := Some False,
                      publication := Some (p\<lparr>published := False\<rparr>),
                      api := Some (a\<lparr>private_key := Some (base64 (randomBytes rng 32))\<rparr>),
                      stats := Some \<lparr>created_at = now, updated_at = now, version = 0\<rparr>\<rparr>"
  from assms p a
  have "sync_plugins (w\<lparr>apps := fst (store_save (apps w) ?e)\<rparr>) ?e ?e = (w', Inr e)"
    by (simp add: save_insert_def Let_def store_save_snd)
  from sync_plugins_cases [OF this] have "e = ?e" "apps w' = fst (store_save (apps w) ?e)"
    by auto
  with p a show ?thesis by blast
qed

section \<open>The display transformation\<close>

lemma display_fields_Inr:
  "identity a = Some i \<Longrightarrow> \<exists>d. importDepreciatedDisplayFields a dd = Inr d"
  by (auto simp: importDepreciatedDisplayFields_def import_direct_def import_chat_def Let_def
      split: option.splits)

lemma display_fields_shape:
  assumes "importDepreciatedDisplayFields a dd = Inr d"
  shows "\<exists>t. twake d = Some t \<and>
     tab t = (case Option.bind dd channel_tab of
                Some ct \<Rightarrow> Some (UrlObject (tab_iframe ct)) | None \<Rightarrow> None) \<and>
     standalone t = (case Option.bind dd app of
                Some sa \<Rightarrow> Some (UrlObject (app_iframe sa)) | None \<Rightarrow> None) \<and>
     configuration t =
       Some ((if truthy_bool (Option.bind (Option.bind dd legacy_configuration) can_configure_in_workspace)
              then [''global''] else []) @
             (if truthy_bool (Option.bind (Option.bind dd legacy_configuration) can_configure_in_channel)
              then [''channel''] else []))"
  using assms
  by (auto simp: importDepreciatedDisplayFields_def Let_def put_twake_def or_url_binding_def
      split: option.splits sum.splits)

section \<open>The importer\<close>

lemma access_stages:
  "import_hooks rt p (import_read rt p (import_write_delete rt p
       \<lparr>read = r0, write = w0, delete = d0, hooks = h0\<rparr>)) =
     \<lparr>read = spec_capability_field rt (depreciated_privileges p),
      write = spec_capability_field rt (depreciated_capabilities p),
      delete = spec_capability_field rt (depreciated_capabilities p),
      hooks = spec_capability_field rt (depreciated_hooks p)\<rparr>"
  by (simp add: import_hooks_def import_read_def import_write_delete_def spec_capability_field_def
      split: option.splits)

lemma import_stages:
  "import_access rt p (import_api p (import_stats t1 t2 (import_publication p
      (import_identity rt p
         (new_Application\<lparr>app_id := Some (php_id p), company_id := Some (group_id p),
                           is_default := Some (php_is_default p)\<rparr>))))) =
     imported_before_display rt p t1 t2"
  by (simp add: import_access_def import_api_def import_stats_def import_publication_def
      import_identity_def new_Application_def access_stages imported_before_display_def)

lemma import_result:
  "importDepreciatedFields rt p t1 t2 =
     (case JSON_parse rt (display_blob p) of
        None \<Rightarrow> Inl SyntaxError
      | Some v \<Rightarrow>
          (case importDepreciatedDisplayFields (imported_before_display rt p t1 t2)
                  (as_display_configuration rt v) of
             Inl e \<Rightarrow> Inl e
           | Inr d \<Rightarrow> Inr ((imported_before_display rt p t1 t2)\<lparr>display := Some d\<rparr>)))"
  by (simp add: importDepreciatedFields_def import_stages import_display_def display_blob_def)

lemma import_fails:
  "JSON_parse rt (display_blob p) = None \<Longrightarrow> importDepreciatedFields rt p t1 t2 = Inl SyntaxError"
  by (simp add: import_result)

lemma import_returns:
  assumes "JSON_parse rt (display_blob p) = Some v"
  shows "\<exists>d. importDepreciatedDisplayFields (imported_before_display rt p t1 t2)
                (as_display_configuration rt v) = Inr d \<and>
     importDepreciatedFields rt p t1 t2 =
       Inr ((imported_before_display rt p t1 t2)\<lparr>display := Some d\<rparr>)"
proof -
  have "\<exists>i. identity (imported_before_display rt p t1 t2) = Some i"
    by (simp add: imported_before_display_def)
  then obtain d where
    "importDepreciatedDisplayFields (imported_before_display rt p t1 t2)
       (as_display_configuration rt v) = Inr d"
    using display_fields_Inr by blast
  with assms show ?thesis by (simp add: import_result)
qed

lemma import_error_is_syntax:
  "importDepreciatedFields rt p t1 t2 = Inl e \<Longrightarrow>
     e = SyntaxError \<and> JSON_parse rt (display_blob p) = None"
  using import_returns [of rt p _ t1 t2] import_fails [of rt p t1 t2]
  by (cases "JSON_parse rt (display_blob p)") auto

lemma import_Inr_fields:
  assumes "importDepreciatedFields rt p t1 t2 = Inr a"
  shows "stats a = Some \<lparr>created_at = t1, updated_at = t2, version = 1\<rparr>"
    and "access a =
           Some \<lparr>read = spec_capability_field rt (depreciated_privileges p),
                 write = spec_capability_field rt (depreciated_capabilities p),
                 delete = spec_capability_field rt (depreciated_capabilities p),
                 hooks = spec_capability_field rt (depreciated_hooks p)\<rparr>"
    and "JSON_parse rt (display_blob p) \<noteq> None"
  using assms
  by (auto simp: import_result imported_before_display_def split: option.splits sum.splits)


section \<open>The migration\<close>

lemma migrate_records_append:
  "migrate_records rt clock w k ents (xs @ ys) =
     (case migrate_records rt clock w k ents xs of
        (w', Inl e) \<Rightarrow> (w', Inl e)
      | (w', Inr (k', ents')) \<Rightarrow> migrate_records rt clock w' k' ents' ys)"
  by (induction xs arbitrary: w k ents) (simp_all add: replaceExisting_def Let_def split: sum.splits)

lemma migrate_records_error:
  "migrate_records rt clock w k ents xs = (w', Inl e) \<Longrightarrow> e = SyntaxError"
proof (induction xs arbitrary: w k ents)
  case Nil
  then show ?case by simp
next
  case (Cons x xs)
  show ?case
  proof (cases "importDepreciatedFields rt x (clock k) (clock (k + 1))")
    case (Inl e')
    with Cons.prems import_error_is_syntax [OF Inl] show ?thesis
      by (simp add: replaceExisting_def)
  next
    case (Inr a)
    with Cons.prems Cons.IH show ?thesis
      by (simp add: replaceExisting_def Let_def)
  qed
qed

lemma migrate_records_stop:
  assumes "JSON_parse rt (display_blob r) = None"
  shows "migrate_records rt clock w k ents (pre @ r # post) =
           (fst (migrate_records rt clock w k ents pre), Inl SyntaxError)"
proof (cases "migrate_records rt clock w k ents pre")
  case (Pair w' res)
  show ?thesis
  proof (cases res)
    case (Inl e)
    with Pair migrate_records_error have "e = SyntaxError" by blast
    with Pair Inl show ?thesis by (simp add: migrate_records_append)
  next
    case (Inr kes)
    obtain k' ents' where "kes = (k', ents')" by (cases kes)
    with Pair Inr import_fails [OF assms] show ?thesis
      by (simp add: migrate_records_append replaceExisting_def)
  qed
qed

lemma migrate_pages_append:
  "migrate_pages rt clock w k ents (ps @ qs) =
     (case migrate_pages rt clock w k ents ps of
        (w', Inl e) \<Rightarrow> (w', Inl e)
      | (w', Inr (k', ents')) \<Rightarrow> migrate_pages rt clock w' k' ents' qs)"
  by (induction ps arbitrary: w k ents) (simp_all split: sum.splits prod.splits)

lemma migrate_pages_error:
  "migrate_pages rt clock w k ents ps = (w', Inl e) \<Longrightarrow> e = SyntaxError"
proof (induction ps arbitrary: w k ents)
  case Nil
  then show ?case by simp
next
  case (Cons pg ps)
  then show ?case
    by (auto split: prod.splits sum.splits dest: migrate_records_error)
qed

lemma migrate_pages_stop:
  assumes "JSON_parse rt (display_blob r) = None"
  shows "migrate_pages rt clock w k ents (ps @ (pre @ r # post) # qs) =
           (fst (migrate_pages rt clock w k ents (ps @ [pre])), Inl SyntaxError)"
proof (cases "migrate_pages rt clock w k ents ps")
  case (Pair w' res)
  show ?thesis
  proof (cases res)
    case (Inl e)
    with Pair migrate_pages_error have "e = SyntaxError" by blast
    with Pair Inl show ?thesis by (simp add: migrate_pages_append)
  next
    case (Inr kes)
    obtain k' ents' where "kes = (k', ents')" by (cases kes)
    with Pair Inr migrate_records_stop [OF assms] show ?thesis
      by (simp add: migrate_pages_append split: prod.splits sum.splits)
  qed
qed

lemma migrate_stop:
  assumes "JSON_parse rt (display_blob r) = None"
  shows "migrate rt clock w (ps @ (pre @ r # post) # qs) =
           (fst (migrate rt clock w (ps @ [pre])), Inl SyntaxError)"
  using migrate_pages_stop [OF assms, of clock w 0 "[]" ps pre post qs]
  by (simp add: migrate_def split: prod.splits sum.splits)

lemma migrate_records_versions:
  "migrate_records rt clock w k ents xs = (w', Inr (k', ents')) \<Longrightarrow>
     list_all (\<lambda>a. map_option version (stats a) = Some 1) ents \<Longrightarrow>
     list_all (\<lambda>a. map_option version (stats a) = Some 1) ents'"
proof (induction xs arbitrary: w k ents)
  case Nil
  then show ?case by simp
next
  case (Cons x xs)
  show ?case
  proof (cases "importDepreciatedFields rt x (clock k) (clock (k + 1))")
    case (Inl e)
    with Cons.prems show ?thesis by (simp add: replaceExisting_def)
  next
    case (Inr a)
    from import_Inr_fields(1) [OF Inr] have "map_option version (stats a) = Some 1" by simp
    with Cons.prems Inr Cons.IH [of "w\<lparr>apps := fst (store_save (apps w) a)\<rparr>" "k + 2" "ents @ [a]"]
    show ?thesis by (simp add: replaceExisting_def Let_def store_save_snd)
  qed
qed

lemma migrate_pages_versions:
  "migrate_pages rt clock w k ents ps = (w', Inr (k', ents')) \<Longrightarrow>
     list_all (\<lambda>a. map_option version (stats a) = Some 1) ents \<Longrightarrow>
     list_all (\<lambda>a. map_option version (stats a) = Some 1) ents'"
proof (induction ps arbitrary: w k ents)
  case Nil
  then show ?case by simp
next
  case (Cons pg ps)
  then show ?case
    by (auto split: prod.splits sum.splits dest: migrate_records_versions)
qed

lemma migrate_versions:
  "migrate rt clock w ps = (w', Inr ents) \<Longrightarrow>
     list_all (\<lambda>a. map_option version (stats a) = Some 1) ents"
  using migrate_pages_versions [of rt clock w 0 "[]" ps w' _ ents]
  by (auto simp: migrate_def split: prod.splits sum.splits)

section \<open>Claims about update and create\<close>

text \<open>
  The comparison does not read the order of the keys of an object: a request on a
  published record that sends a chat command back with its keys in the other order, and
  changes nothing else, is not rejected.
\<close>

lemma reordered_keys_are_accepted:
  "isEqual_pick (pick ex_with_command) (pick ex_command_reordered) \<and>
   pick ex_with_command \<noteq> pick ex_command_reordered \<and>
   snd (save (ex_world\<lparr>apps := [ex_with_command]\<rparr>) (Some ''app1'') ex_command_reordered 7
          zero_rng) =
     Inr (ex_command_reordered
            \<lparr>stats := Some \<lparr>created_at = 1, updated_at = 7, version = 1\<rparr>\<rparr>)"
  by (simp add: ex_world_def ex_published_def ex_with_command_def ex_command_reordered_def
        ex_identity_def empty_Twake_def save_def save_update_def sync_plugins_def
        apply_requested_def js_increment_small pick_def isEqual_Display_def isEqual_Twake_def
        isEqual_Chat_def isEqual_Access_def ex_access_def store_get_def store_save_def Let_def)

text \<open>
  C1, as amended. An update of a stored record that is published, by a request whose
  \<open>publication.requested\<close> is true and whose \<open>{identity, api, access, display}\<close> differ
  from the stored ones by the deep comparison \<open>_.isEqual\<close>, throws the validation error
  and changes nothing: the state after the call is the state before it.
\<close>

theorem published_update_rejected:
  assumes "i \<noteq> []"
    and "store_get (apps w) i = Some stored"
    and "publication stored = Some sp" and "published sp"
    and "publication req = Some rp" and "requested rp"
    and "\<not> isEqual_pick (pick stored) (pick req)"
  shows "save w (Some i) req now rng =
           (w, Inl (BadRequest ''You can't update applications details while it published''))"
  using assms save_update_frozen [of w i stored sp req rp now] by (simp add: save_Some)

theorem published_update_rejected_witness:
  "store_get (apps ex_world) ''app1'' = Some ex_published \<and>
   publication ex_published = Some \<lparr>published = True, requested = True\<rparr> \<and>
   publication ex_rename = Some \<lparr>published = True, requested = True\<rparr> \<and>
   \<not> isEqual_pick (pick ex_published) (pick ex_rename) \<and>
   save ex_world (Some ''app1'') ex_rename 7 zero_rng =
     (ex_world, Inl (BadRequest ''You can't update applications details while it published''))"
  using published_update_rejected
    [of "''app1''" ex_world ex_published "\<lparr>published = True, requested = True\<rparr>" ex_rename
        "\<lparr>published = True, requested = True\<rparr>" 7 zero_rng]
  by (simp add: ex_world_def ex_published_def ex_rename_def ex_identity_def store_get_def pick_def)

text \<open>
  C1 as stated fails when the request withdraws the publication request: line 266 clears
  \<open>published\<close> before line 269 reads it, so the comparison is skipped and the update is
  stored, new name included.
\<close>

theorem published_update_withdrawn_counterexample:
  "stored_publication ex_world ''app1'' = Some \<lparr>published = True, requested = True\<rparr> \<and>
   \<not> isEqual_pick (pick ex_published) (pick ex_withdraw_rename) \<and>
   snd (save ex_world (Some ''app1'') ex_withdraw_rename 7 zero_rng) =
     Inr (ex_withdraw_rename
            \<lparr>publication := Some \<lparr>published = False, requested = False\<rparr>,
             stats := Some \<lparr>created_at = 1, updated_at = 7, version = 1\<rparr>\<rparr>) \<and>
   store_get (apps (fst (save ex_world (Some ''app1'') ex_withdraw_rename 7 zero_rng))) ''app1''
     \<noteq> Some ex_published"
  by (simp add: ex_world_def ex_published_def ex_withdraw_rename_def ex_rename_def
        ex_identity_def save_def save_update_def sync_plugins_def apply_requested_def
        js_increment_small pick_def
        store_get_def store_save_def Let_def stored_publication_def)

text \<open>
  C10, as amended. When the stored record is published and the request's
  \<open>publication.requested\<close> is true, a request whose \<open>api\<close> object differs from the stored
  one in any subfield, \<open>private_key\<close> included, is rejected with the validation error and
  nothing changes; and no update that succeeds changes the stored private key, whatever
  key the request carries.
\<close>

theorem published_update_compares_api:
  "(i \<noteq> [] \<and> store_get (apps w) i = Some stored \<and>
      publication stored = Some sp \<and> published sp \<and>
      publication req = Some rp \<and> requested rp \<and> api req \<noteq> api stored
    \<longrightarrow> save w (Some i) req now rng =
          (w, Inl (BadRequest ''You can't update applications details while it published''))) \<and>
   (i \<noteq> [] \<and> save w (Some i) req2 now rng = (w2, Inr e)
    \<longrightarrow> stored_private_key w2 i = stored_private_key w i)"
proof (intro conjI impI)
  assume a: "i \<noteq> [] \<and> store_get (apps w) i = Some stored \<and>
      publication stored = Some sp \<and> published sp \<and>
      publication req = Some rp \<and> requested rp \<and> api req \<noteq> api stored"
  then have "\<not> isEqual_pick (pick stored) (pick req)" by (auto simp: pick_def)
  with a show "save w (Some i) req now rng =
          (w, Inl (BadRequest ''You can't update applications details while it published''))"
    using save_update_frozen [of w i stored sp req rp now] by (simp add: save_Some)
next
  assume "i \<noteq> [] \<and> save w (Some i) req2 now rng = (w2, Inr e)"
  then have "save_update w i req2 now = (w2, Inr e)" by (auto simp: save_def)
  then show "stored_private_key w2 i = stored_private_key w i"
    by (rule save_update_stored(6))
qed

theorem published_update_compares_api_witness:
  "Option.bind (api ex_other_key) private_key = Some ''other'' \<and>
   stored_private_key ex_world ''app1'' = Some ''k0'' \<and>
   save ex_world (Some ''app1'') ex_other_key 7 zero_rng =
     (ex_world, Inl (BadRequest ''You can't update applications details while it published'')) \<and>
   (\<exists>w2 e. save ex_world (Some ''app1'') ex_withdraw 7 zero_rng = (w2, Inr e) \<and>
           stored_private_key w2 ''app1'' = Some ''k0'')"
proof -
  obtain w2 e where s: "save ex_world (Some ''app1'') ex_withdraw 7 zero_rng = (w2, Inr e)"
    by (simp add: ex_world_def ex_published_def ex_withdraw_def ex_identity_def save_def
          save_update_def sync_plugins_def apply_requested_def js_increment_small pick_def
          store_get_def
          store_save_def Let_def)
  have k: "stored_private_key ex_world ''app1'' = Some ''k0''"
    by (simp add: ex_world_def ex_published_def ex_api_def stored_private_key_def store_get_def)
  from published_update_compares_api
    [of "''app1''" ex_world ex_published "\<lparr>published = True, requested = True\<rparr>" ex_other_key
        "\<lparr>published = True, requested = True\<rparr>" 7 zero_rng ex_withdraw w2 e]
  have "save ex_world (Some ''app1'') ex_other_key 7 zero_rng =
     (ex_world, Inl (BadRequest ''You can't update applications details while it published''))"
    and "stored_private_key w2 ''app1'' = stored_private_key ex_world ''app1''"
    using s by (simp_all add: ex_world_def ex_published_def ex_other_key_def ex_api_def
          store_get_def)
  with s k show ?thesis by (simp add: ex_other_key_def ex_api_def)
qed

text \<open>
  C10 as stated fails for the same reason as C1: with \<open>publication.requested = false\<close> in
  the request the comparison is skipped, and a request with another private key is
  accepted (the stored key stays).
\<close>

theorem private_key_withdrawn_counterexample:
  "stored_publication ex_world ''app1'' = Some \<lparr>published = True, requested = True\<rparr> \<and>
   Option.bind (api ex_withdraw_other_key) private_key = Some ''other'' \<and>
   stored_private_key ex_world ''app1'' = Some ''k0'' \<and>
   snd (save ex_world (Some ''app1'') ex_withdraw_other_key 7 zero_rng) =
     Inr (ex_published
            \<lparr>publication := Some \<lparr>published = False, requested = False\<rparr>,
             stats := Some \<lparr>created_at = 1, updated_at = 7, version = 1\<rparr>\<rparr>)"
  by (simp add: ex_world_def ex_published_def ex_withdraw_other_key_def ex_other_key_def
        ex_api_def ex_identity_def save_def save_update_def sync_plugins_def apply_requested_def
        js_increment_small
        pick_def store_get_def store_save_def Let_def stored_publication_def
        stored_private_key_def)

text \<open>
  C2, as amended. For every draft that carries the \<open>identity\<close>, \<open>publication\<close> and \<open>api\<close>
  objects, create returns the draft with \<open>is_default = false\<close>,
  \<open>publication.published = false\<close>, \<open>api.private_key\<close> the base64 text of 32 bytes read
  from the entropy source and \<open>stats = {created_at: now, updated_at: now, version: 0}\<close>,
  whatever the draft had there, and that record is in the store.
\<close>

theorem create_forces_fields:
  assumes "\<not> truthy_string application_id"
    and "identity draft = Some idn" and "publication draft = Some p" and "api draft = Some a"
  shows "\<exists>e. snd (save w application_id draft now rng) = Inr e \<and>
           e \<in> set (apps (fst (save w application_id draft now rng))) \<and>
           e = draft\<lparr>is_default := Some False,
                      publication := Some (p\<lparr>published := False\<rparr>),
                      api := Some (a\<lparr>private_key := Some (base64 (randomBytes rng 32))\<rparr>),
                      stats := Some \<lparr>created_at = now, updated_at = now, version = 0\<rparr>\<rparr> \<and>
           length (randomBytes rng 32) = 32 \<and>
           length (base64 (randomBytes rng 32)) = 44"
  using assms save_insert_result [of draft idn p a w now rng]
  by (simp add: save_def store_save_mem length_randomBytes length_base64)

theorem create_forces_fields_witness:
  "is_default ex_full_draft = Some True \<and>
   publication ex_full_draft = Some \<lparr>published = True, requested = False\<rparr> \<and>
   stats ex_full_draft = Some \<lparr>created_at = 5, updated_at = 5, version = 9\<rparr> \<and>
   snd (save ex_world None ex_full_draft 7 zero_rng) =
     Inr (ex_full_draft
            \<lparr>is_default := Some False,
             publication := Some \<lparr>published = False, requested = False\<rparr>,
             api := Some \<lparr>hooks_url = None, allowed_ips = None,
                          private_key = Some (base64 (randomBytes zero_rng 32))\<rparr>,
             stats := Some \<lparr>created_at = 7, updated_at = 7, version = 0\<rparr>\<rparr>)"
  using create_forces_fields
    [of None ex_full_draft ex_identity "\<lparr>published = True, requested = False\<rparr>"
        "\<lparr>hooks_url = None, allowed_ips = None, private_key = Some ''chosen''\<rparr>"
        ex_world 7 zero_rng]
  by (simp add: ex_full_draft_def ex_draft_def new_Application_def)

text \<open>
  C2 as stated fails on a draft without the \<open>api\<close> object, such as the draft of the
  spec's scenario A: line 298 assigns to \<open>app.api.private_key\<close>, which throws, and
  nothing is stored. A draft without \<open>publication\<close> throws in the same way at line 297,
  and a draft without \<open>identity\<close> at line 311, after the record is stored.
\<close>

theorem create_without_api_counterexample:
  "api ex_draft = None \<and>
   save ex_world None ex_draft 7 zero_rng = (ex_world, Inl TypeError) \<and>
   save ex_world None (ex_full_draft\<lparr>publication := None\<rparr>) 7 zero_rng =
     (ex_world, Inl TypeError) \<and>
   snd (save ex_world None (ex_full_draft\<lparr>identity := None\<rparr>) 7 zero_rng) = Inl TypeError"
  by (simp add: ex_full_draft_def ex_draft_def new_Application_def save_def save_insert_def
        sync_plugins_def store_get_def store_save_def Let_def)

text \<open>
  C3, as amended. A successful update of a record whose stored version \<open>v\<close> is an integer
  with \<open>- 2 ^ 53 \<le> v < 2 ^ 53\<close> adds exactly 1 to it; a created record has version 0; an
  imported record, and so every record that a migration returns, has version 1; after a
  sequence of \<open>N\<close> successful updates to one record its version is the initial version
  plus \<open>N\<close>, as long as that sum is at most \<open>2 ^ 53\<close>: for a created record it is \<open>N\<close>.
\<close>

theorem version_counts_updates:
  "(i \<noteq> [] \<and> save w (Some i) req now rng = (w1, Inr e) \<and>
    stored_version w i = Some v \<and> - (2 ^ 53) \<le> v \<and> v < 2 ^ 53
    \<longrightarrow> stored_version w1 i = Some (v + 1) \<and> map_option version (stats e) = Some (v + 1)) \<and>
   (\<not> truthy_string application_id \<and> save w application_id draft now rng = (w2, Inr c)
    \<longrightarrow> map_option version (stats c) = Some 0 \<and> c \<in> set (apps w2)) \<and>
   (importDepreciatedFields rt p t1 t2 = Inr a \<longrightarrow> map_option version (stats a) = Some 1) \<and>
   (migrate rt clock w pages = (w3, Inr entities)
    \<longrightarrow> list_all (\<lambda>a. map_option version (stats a) = Some 1) entities) \<and>
   (i \<noteq> [] \<and> save_updates w i reqs rng = (w4, Inr ()) \<and>
    stored_version w i = Some v \<and> - (2 ^ 53) \<le> v \<and> v + int (length reqs) \<le> 2 ^ 53
    \<longrightarrow> stored_version w4 i = Some (v + int (length reqs))) \<and>
   (\<not> truthy_string application_id \<and> save w application_id draft now rng = (w2, Inr c) \<and>
    app_id c = Some i2 \<and> i2 \<noteq> [] \<and> save_updates w2 i2 reqs2 rng2 = (w5, Inr ()) \<and>
    int (length reqs2) \<le> 2 ^ 53
    \<longrightarrow> stored_version w5 i2 = Some (int (length reqs2)))"
proof (intro conjI impI)
  assume a: "i \<noteq> [] \<and> save w (Some i) req now rng = (w1, Inr e) \<and>
    stored_version w i = Some v \<and> - (2 ^ 53) \<le> v \<and> v < 2 ^ 53"
  then have u: "save_update w i req now = (w1, Inr e)" by (auto simp: save_def)
  from a have "js_increment v = v + 1" by (intro js_increment_exact) simp_all
  with a save_update_stored(3,4) [OF u]
  show "stored_version w1 i = Some (v + 1)" and "map_option version (stats e) = Some (v + 1)"
    by simp_all
next
  assume "\<not> truthy_string application_id \<and> save w application_id draft now rng = (w2, Inr c)"
  then have "save_insert w draft now rng = (w2, Inr c)" by (auto simp: save_def)
  from save_insert_success [OF this]
  show "map_option version (stats c) = Some 0" and "c \<in> set (apps w2)"
    by (auto simp: store_save_mem)
next
  assume "importDepreciatedFields rt p t1 t2 = Inr a"
  from import_Inr_fields(1) [OF this] show "map_option version (stats a) = Some 1" by simp
next
  assume "migrate rt clock w pages = (w3, Inr entities)"
  then show "list_all (\<lambda>a. map_option version (stats a) = Some 1) entities"
    by (rule migrate_versions)
next
  assume "i \<noteq> [] \<and> save_updates w i reqs rng = (w4, Inr ()) \<and>
    stored_version w i = Some v \<and> - (2 ^ 53) \<le> v \<and> v + int (length reqs) \<le> 2 ^ 53"
  then show "stored_version w4 i = Some (v + int (length reqs))"
    using save_updates_version [of i w reqs rng w4 v] by simp
next
  assume a: "\<not> truthy_string application_id \<and> save w application_id draft now rng = (w2, Inr c) \<and>
    app_id c = Some i2 \<and> i2 \<noteq> [] \<and> save_updates w2 i2 reqs2 rng2 = (w5, Inr ()) \<and>
    int (length reqs2) \<le> 2 ^ 53"
  then have "save_insert w draft now rng = (w2, Inr c)" by (auto simp: save_def)
  from save_insert_success [OF this] obtain pb ab where
    c: "c = draft\<lparr>is_default := Some False,
                      publication := Some (pb\<lparr>published := False\<rparr>),
                      api := Some (ab\<lparr>private_key := Some (base64 (randomBytes rng 32))\<rparr>),
                      stats := Some \<lparr>created_at = now, updated_at = now, version = 0\<rparr>\<rparr>"
    and w2: "apps w2 = fst (store_save (apps w) c)"
    by blast
  from a have "store_get (apps w2) i2 = Some c"
    using store_get_save_same [of c i2 "apps w"] w2 by simp
  then have "stored_version w2 i2 = Some 0"
    using c by (simp add: stored_version_def)
  with a save_updates_version [of i2 w2 reqs2 rng2 w5 0]
  show "stored_version w5 i2 = Some (int (length reqs2))" by simp
qed

theorem version_counts_updates_witness:
  "stored_version ex_world ''app1'' = Some 0 \<and>
   (\<exists>w1 e. save ex_world (Some ''app1'') ex_withdraw 7 zero_rng = (w1, Inr e) \<and>
            stored_version w1 ''app1'' = Some 1 \<and> map_option version (stats e) = Some 1) \<and>
   (\<exists>w2 c w5. save ex_world None ex_full_draft 7 zero_rng = (w2, Inr c) \<and>
            map_option version (stats c) = Some 0 \<and> app_id c = Some ''app2'' \<and>
            save_updates w2 ''app2'' [(ex_full_draft, 8), (ex_full_draft, 9)] zero_rng =
              (w5, Inr ()) \<and>
            stored_version w5 ''app2'' = Some 2) \<and>
   (\<exists>a. importDepreciatedFields ex_runtime ex_legacy 100 101 = Inr a \<and>
         map_option version (stats a) = Some 1) \<and>
   (\<exists>w3 entities. migrate ex_runtime ex_clock ex_world [[ex_legacy]] = (w3, Inr entities) \<and>
         list_all (\<lambda>a. map_option version (stats a) = Some 1) entities) \<and>
   (\<exists>w4. save_updates ex_world ''app1'' [(ex_withdraw, 7), (ex_withdraw_rename, 8)] zero_rng =
            (w4, Inr ()) \<and>
         stored_version w4 ''app1'' = Some 2)"
proof -
  have v0: "stored_version ex_world ''app1'' = Some 0"
    by (simp add: ex_world_def ex_published_def stored_version_def store_get_def)
  obtain w1 e where s1: "save ex_world (Some ''app1'') ex_withdraw 7 zero_rng = (w1, Inr e)"
    by (simp add: ex_world_def ex_published_def ex_withdraw_def ex_identity_def save_def
          save_update_def sync_plugins_def apply_requested_def js_increment_small pick_def
          store_get_def store_save_def Let_def)
  obtain w2 c where s2: "save ex_world None ex_full_draft 7 zero_rng = (w2, Inr c)"
    and c: "app_id c = Some ''app2''"
    by (simp add: ex_world_def ex_published_def ex_full_draft_def ex_draft_def
          new_Application_def ex_identity_def save_def save_insert_def sync_plugins_def
          store_get_def store_save_def Let_def)
  have "\<exists>w5. save_updates (fst (save ex_world None ex_full_draft 7 zero_rng)) ''app2''
               [(ex_full_draft, 8), (ex_full_draft, 9)] zero_rng = (w5, Inr ())"
    by (simp add: ex_world_def ex_published_def ex_full_draft_def ex_draft_def
          new_Application_def ex_identity_def save_def save_update_def save_insert_def
          sync_plugins_def apply_requested_def js_increment_small pick_def store_get_def
          store_save_def Let_def)
  with s2 obtain w5 where
    s6: "save_updates w2 ''app2'' [(ex_full_draft, 8), (ex_full_draft, 9)] zero_rng = (w5, Inr ())"
    by auto
  obtain a where s3: "importDepreciatedFields ex_runtime ex_legacy 100 101 = Inr a"
    using import_returns [of ex_runtime ex_legacy "JObject []" 100 101]
    by (auto simp: ex_runtime_def ex_JSON_parse_def ex_legacy_def display_blob_def)
  obtain w3 entities where
    s4: "migrate ex_runtime ex_clock ex_world [[ex_legacy]] = (w3, Inr entities)"
    using s3 import_returns [of ex_runtime ex_legacy "JObject []" "ex_clock 0" "ex_clock (0 + 1)"]
    by (auto simp: migrate_def replaceExisting_def Let_def ex_runtime_def ex_JSON_parse_def
          ex_legacy_def display_blob_def)
  obtain w4 where
    s5: "save_updates ex_world ''app1'' [(ex_withdraw, 7), (ex_withdraw_rename, 8)] zero_rng =
           (w4, Inr ())"
    by (simp add: ex_world_def ex_published_def ex_withdraw_def ex_withdraw_rename_def
          ex_rename_def ex_identity_def save_def save_update_def sync_plugins_def
          apply_requested_def js_increment_small pick_def store_get_def store_save_def Let_def)
  note t = version_counts_updates
    [where i = "''app1''" and w = ex_world and req = ex_withdraw and now = 7 and rng = zero_rng
       and ?w1.0 = w1 and e = e and v = 0 and application_id = None and draft = ex_full_draft
       and ?w2.0 = w2 and c = c and rt = ex_runtime and p = ex_legacy and ?t1.0 = 100
       and ?t2.0 = 101 and a = a and clock = ex_clock and pages = "[[ex_legacy]]"
       and ?w3.0 = w3 and entities = entities
       and reqs = "[(ex_withdraw, 7), (ex_withdraw_rename, 8)]" and ?w4.0 = w4
       and ?i2.0 = "''app2''" and ?reqs2.0 = "[(ex_full_draft, 8), (ex_full_draft, 9)]"
       and ?rng2.0 = zero_rng and ?w5.0 = w5]
  from t s1 v0 have c1: "stored_version w1 ''app1'' = Some 1 \<and> map_option version (stats e) = Some 1"
    by simp
  from t s2 have c2: "map_option version (stats c) = Some 0" by simp
  from t s3 have c3: "map_option version (stats a) = Some 1" by simp
  from t s4 have c4: "list_all (\<lambda>a. map_option version (stats a) = Some 1) entities" by simp
  from t s5 v0 have c5: "stored_version w4 ''app1'' = Some 2" by simp
  from t s2 c s6 have c6: "stored_version w5 ''app2'' = Some 2" by simp
  from v0 s1 s2 c s6 s3 s4 s5 c1 c2 c3 c4 c5 c6 show ?thesis by blast
qed

text \<open>
  C3 as stated fails at the largest version that \<open>++\<close> can reach: from a stored version
  of \<open>2 ^ 53\<close> an update succeeds and the version is still \<open>2 ^ 53\<close>, the sum
  \<open>2 ^ 53 + 1\<close> being no double. (Below \<open>- 2 ^ 53\<close> the sum is rounded as well.)
\<close>

theorem version_saturated_counterexample:
  "stored_version ex_saturated_world ''app1'' = Some (2 ^ 53) \<and>
   snd (save ex_saturated_world (Some ''app1'') ex_saturated 7 zero_rng) =
     Inr (ex_saturated\<lparr>stats := Some \<lparr>created_at = 1, updated_at = 7, version = 2 ^ 53\<rparr>\<rparr>) \<and>
   stored_version (fst (save ex_saturated_world (Some ''app1'') ex_saturated 7 zero_rng)) ''app1'' =
     Some (2 ^ 53) \<and>
   js_increment (- (2 ^ 53) - 2) = - (2 ^ 53)"
proof -
  have "bit_length \<bar>- (2 ^ 53) - 2 + 1 :: int\<bar> = Suc 53"
    by (rule bit_length_bounds) simp_all
  then have low: "js_increment (- (2 ^ 53) - 2) = - (2 ^ 53)"
    by (simp add: js_increment_def round_double_def Let_def)
  have "stored_version ex_saturated_world ''app1'' = Some (2 ^ 53) \<and>
   snd (save ex_saturated_world (Some ''app1'') ex_saturated 7 zero_rng) =
     Inr (ex_saturated\<lparr>stats := Some \<lparr>created_at = 1, updated_at = 7, version = 2 ^ 53\<rparr>\<rparr>) \<and>
   stored_version (fst (save ex_saturated_world (Some ''app1'') ex_saturated 7 zero_rng)) ''app1'' =
     Some (2 ^ 53)"
    by (simp add: ex_saturated_world_def ex_saturated_def ex_published_def ex_identity_def
          save_def save_update_def sync_plugins_def apply_requested_def
          js_increment_saturated_numeral pick_def store_get_def store_save_def Let_def
          stored_version_def)
  with low show ?thesis by simp
qed

text \<open>
  C4, as amended. A successful update writes \<open>publication\<close>, \<open>identity\<close>, \<open>api.hooks_url\<close>,
  \<open>api.allowed_ips\<close>, \<open>access\<close>, \<open>display\<close>, \<open>stats.updated_at\<close> and \<open>stats.version\<close> of the
  stored record, and nothing else of it or of any other record: the private key is the
  stored one, after one update and after any sequence of successful updates, and after a
  create followed by updates it is the key generated at creation.
\<close>

theorem update_keeps_private_key:
  "(i \<noteq> [] \<and> save w (Some i) req now rng = (w1, Inr e)
    \<longrightarrow> (\<exists>old (ep::Publication) (ap::Publication) (ea::Api) (aa::Api) s.
           store_get (apps w) i = Some old \<and> publication old = Some ep \<and>
           publication req = Some ap \<and> api old = Some ea \<and> api req = Some aa \<and>
           stats old = Some s \<and>
           e = old\<lparr>publication := Some (apply_requested ep ap),
                   identity := identity req,
                   api := Some (ea\<lparr>hooks_url := hooks_url aa, allowed_ips := allowed_ips aa\<rparr>),
                   access := access req,
                   display := display req,
                   stats := Some (s\<lparr>updated_at := now, version := js_increment (version s)\<rparr>)\<rparr> \<and>
           store_get (apps w1) i = Some e \<and>
           (\<forall>j. j \<noteq> i \<longrightarrow> store_get (apps w1) j = store_get (apps w) j) \<and>
           stored_private_key w1 i = stored_private_key w i)) \<and>
   (i \<noteq> [] \<and> save_updates w i reqs rng = (w2, Inr ())
    \<longrightarrow> stored_private_key w2 i = stored_private_key w i) \<and>
   (\<not> truthy_string application_id \<and> save w application_id draft now rng = (w3, Inr c) \<and>
    app_id c = Some i2 \<and> i2 \<noteq> [] \<and> save_updates w3 i2 reqs2 rng2 = (w4, Inr ())
    \<longrightarrow> stored_private_key w4 i2 = Some (base64 (randomBytes rng 32)))"
proof (intro conjI impI)
  assume "i \<noteq> [] \<and> save w (Some i) req now rng = (w1, Inr e)"
  then have u: "save_update w i req now = (w1, Inr e)" by (auto simp: save_def)
  from save_update_success [OF u] save_update_stored(1,2,6) [OF u]
  show "\<exists>old (ep::Publication) (ap::Publication) (ea::Api) (aa::Api) s.
           store_get (apps w) i = Some old \<and> publication old = Some ep \<and>
           publication req = Some ap \<and> api old = Some ea \<and> api req = Some aa \<and>
           stats old = Some s \<and>
           e = old\<lparr>publication := Some (apply_requested ep ap),
                   identity := identity req,
                   api := Some (ea\<lparr>hooks_url := hooks_url aa, allowed_ips := allowed_ips aa\<rparr>),
                   access := access req,
                   display := display req,
                   stats := Some (s\<lparr>updated_at := now, version := js_increment (version s)\<rparr>)\<rparr> \<and>
           store_get (apps w1) i = Some e \<and>
           (\<forall>j. j \<noteq> i \<longrightarrow> store_get (apps w1) j = store_get (apps w) j) \<and>
           stored_private_key w1 i = stored_private_key w i"
    by blast
next
  assume "i \<noteq> [] \<and> save_updates w i reqs rng = (w2, Inr ())"
  then show "stored_private_key w2 i = stored_private_key w i"
    using save_updates_private_key [of i w reqs rng w2] by simp
next
  assume a: "\<not> truthy_string application_id \<and> save w application_id draft now rng = (w3, Inr c) \<and>
    app_id c = Some i2 \<and> i2 \<noteq> [] \<and> save_updates w3 i2 reqs2 rng2 = (w4, Inr ())"
  then have "save_insert w draft now rng = (w3, Inr c)" by (auto simp: save_def)
  from save_insert_success [OF this] obtain p a' where
    c: "c = draft\<lparr>is_default := Some False,
                      publication := Some (p\<lparr>published := False\<rparr>),
                      api := Some (a'\<lparr>private_key := Some (base64 (randomBytes rng 32))\<rparr>),
                      stats := Some \<lparr>created_at = now, updated_at = now, version = 0\<rparr>\<rparr>"
    and w3: "apps w3 = fst (store_save (apps w) c)"
    by blast
  from a have "store_get (apps w3) i2 = Some c"
    using store_get_save_same [of c i2 "apps w"] w3 by simp
  then have "stored_private_key w3 i2 = Some (base64 (randomBytes rng 32))"
    using c by (simp add: stored_private_key_def)
  with a save_updates_private_key [of i2 w3 reqs2 rng2 w4]
  show "stored_private_key w4 i2 = Some (base64 (randomBytes rng 32))" by simp
qed

theorem update_keeps_private_key_witness:
  "stored_private_key ex_world ''app1'' = Some ''k0'' \<and>
   (\<exists>w1 e. save ex_world (Some ''app1'') ex_withdraw_other_key 7 zero_rng = (w1, Inr e) \<and>
            stored_private_key w1 ''app1'' = Some ''k0'') \<and>
   (\<exists>w2. save_updates ex_world ''app1'' [(ex_withdraw, 7), (ex_withdraw_other_key, 8)] zero_rng =
            (w2, Inr ()) \<and>
          stored_private_key w2 ''app1'' = Some ''k0'') \<and>
   (\<exists>w3 c w4. save ex_world None ex_full_draft 7 zero_rng = (w3, Inr c) \<and>
          app_id c = Some ''app2'' \<and>
          save_updates w3 ''app2'' [(ex_full_draft, 8), (ex_full_draft, 9)] zero_rng = (w4, Inr ()) \<and>
          stored_private_key w4 ''app2'' = Some (base64 (randomBytes zero_rng 32)))"
proof -
  have k0: "stored_private_key ex_world ''app1'' = Some ''k0''"
    by (simp add: ex_world_def ex_published_def ex_api_def stored_private_key_def store_get_def)
  obtain w1 e where
    s1: "save ex_world (Some ''app1'') ex_withdraw_other_key 7 zero_rng = (w1, Inr e)"
    by (simp add: ex_world_def ex_published_def ex_withdraw_other_key_def ex_other_key_def
          ex_api_def ex_identity_def save_def save_update_def sync_plugins_def
          apply_requested_def js_increment_small pick_def store_get_def store_save_def Let_def)
  obtain w2 where
    s2: "save_updates ex_world ''app1'' [(ex_withdraw, 7), (ex_withdraw_other_key, 8)] zero_rng =
           (w2, Inr ())"
    by (simp add: ex_world_def ex_published_def ex_withdraw_def ex_withdraw_other_key_def
          ex_other_key_def ex_api_def ex_identity_def save_def save_update_def sync_plugins_def
          apply_requested_def js_increment_small pick_def store_get_def store_save_def Let_def)
  obtain w3 c where s3: "save ex_world None ex_full_draft 7 zero_rng = (w3, Inr c)"
    and c: "app_id c = Some ''app2''"
    by (simp add: ex_world_def ex_published_def ex_full_draft_def ex_draft_def
          new_Application_def ex_identity_def save_def save_insert_def sync_plugins_def
          store_get_def store_save_def Let_def)
  have "\<exists>w4. save_updates (fst (save ex_world None ex_full_draft 7 zero_rng)) ''app2''
               [(ex_full_draft, 8), (ex_full_draft, 9)] zero_rng = (w4, Inr ())"
    by (simp add: ex_world_def ex_published_def ex_full_draft_def ex_draft_def
          new_Application_def ex_identity_def save_def save_update_def save_insert_def
          sync_plugins_def apply_requested_def js_increment_small pick_def store_get_def
          store_save_def Let_def)
  with s3 obtain w4 where
    s4: "save_updates w3 ''app2'' [(ex_full_draft, 8), (ex_full_draft, 9)] zero_rng = (w4, Inr ())"
    by auto
  note t = update_keeps_private_key
    [where i = "''app1''" and w = ex_world and req = ex_withdraw_other_key and now = 7
       and rng = zero_rng and ?w1.0 = w1 and e = e
       and reqs = "[(ex_withdraw, 7), (ex_withdraw_other_key, 8)]" and ?w2.0 = w2
       and application_id = None and draft = ex_full_draft and ?w3.0 = w3 and c = c
       and ?i2.0 = "''app2''" and ?reqs2.0 = "[(ex_full_draft, 8), (ex_full_draft, 9)]"
       and ?rng2.0 = zero_rng and ?w4.0 = w4]
  from t s1 k0 have c1: "stored_private_key w1 ''app1'' = Some ''k0''" by auto
  from t s2 k0 have c2: "stored_private_key w2 ''app1'' = Some ''k0''" by simp
  from t s3 c s4 have c3: "stored_private_key w4 ''app2'' = Some (base64 (randomBytes zero_rng 32))"
    by simp
  from k0 s1 s2 s3 c s4 c1 c2 c3 show ?thesis by blast
qed

text \<open>
  C4 as stated lists what update writes without \<open>publication\<close>; lines 264 to 267 write
  it: an update that withdraws the request leaves \<open>published\<close> and \<open>requested\<close> both false.
\<close>

theorem update_writes_publication_counterexample:
  "stored_publication ex_world ''app1'' = Some \<lparr>published = True, requested = True\<rparr> \<and>
   snd (save ex_world (Some ''app1'') ex_withdraw 7 zero_rng) =
     Inr (ex_published
            \<lparr>publication := Some \<lparr>published = False, requested = False\<rparr>,
             stats := Some \<lparr>created_at = 1, updated_at = 7, version = 1\<rparr>\<rparr>) \<and>
   stored_publication (fst (save ex_world (Some ''app1'') ex_withdraw 7 zero_rng)) ''app1'' =
     Some \<lparr>published = False, requested = False\<rparr>"
  by (simp add: ex_world_def ex_published_def ex_withdraw_def ex_identity_def save_def
        save_update_def sync_plugins_def apply_requested_def js_increment_small pick_def
        store_get_def
        store_save_def Let_def stored_publication_def)

section \<open>Claims about the importer and the migration\<close>



text \<open>
  C6, as amended. When \<open>JSON.parse\<close> throws on the display blob of a legacy record, the
  import of that record throws, and the migration stops there: it throws the same error,
  and its state is the state that migrating the records before that one leaves; neither
  the rest of the page nor the later pages are imported.
\<close>

theorem display_blob_failure_stops_migration:
  assumes "JSON_parse rt (display_blob r) = None"
  shows "importDepreciatedFields rt r t1 t2 = Inl SyntaxError \<and>
         migrate rt clock w (ps @ (pre @ r # post) # qs) =
           (fst (migrate rt clock w (ps @ [pre])), Inl SyntaxError)"
  using import_fails [OF assms] migrate_stop [OF assms] by simp

theorem display_blob_failure_stops_migration_witness:
  "JSON_parse ex_runtime (display_blob ex_legacy_bad_display) = None \<and>
   importDepreciatedFields ex_runtime ex_legacy_bad_display 100 101 = Inl SyntaxError \<and>
   migrate ex_runtime ex_clock ex_empty_world
       [[ex_legacy], [ex_legacy_bad_display, ex_legacy\<lparr>php_id := ''old2''\<rparr>]] =
     (fst (migrate ex_runtime ex_clock ex_empty_world [[ex_legacy], []]), Inl SyntaxError)"
proof -
  have h: "JSON_parse ex_runtime (display_blob ex_legacy_bad_display) = None"
    by (simp add: ex_runtime_def ex_JSON_parse_def ex_legacy_bad_display_def ex_legacy_def
          display_blob_def)
  from display_blob_failure_stops_migration
    [OF h, of 100 101 ex_clock ex_empty_world "[[ex_legacy]]" "[]"
       "[ex_legacy\<lparr>php_id := ''old2''\<rparr>]" "[]"] h
  show ?thesis by simp
qed

text \<open>
  C6 as stated fails: in a page of two records whose first has an unparsable display
  blob, the migration throws and the second record, which imports without error, is not
  stored.
\<close>

theorem migration_continues_counterexample:
  "importDepreciatedFields ex_runtime ex_legacy 100 101 \<noteq> Inl SyntaxError \<and>
   migrate ex_runtime ex_clock ex_empty_world [[ex_legacy_bad_display, ex_legacy]] =
     (ex_empty_world, Inl SyntaxError) \<and>
   store_get (apps (fst (migrate ex_runtime ex_clock ex_empty_world
                           [[ex_legacy_bad_display, ex_legacy]]))) ''old1'' = None"
proof -
  have "JSON_parse ex_runtime (display_blob ex_legacy) = Some (JObject [])"
    by (simp add: ex_runtime_def ex_JSON_parse_def ex_legacy_def display_blob_def)
  from import_returns [OF this, of 100 101]
  have a: "importDepreciatedFields ex_runtime ex_legacy 100 101 \<noteq> Inl SyntaxError" by auto
  have "JSON_parse ex_runtime (display_blob ex_legacy_bad_display) = None"
    by (simp add: ex_runtime_def ex_JSON_parse_def ex_legacy_bad_display_def ex_legacy_def
          display_blob_def)
  from import_fails [OF this]
  have m: "migrate ex_runtime ex_clock ex_empty_world [[ex_legacy_bad_display, ex_legacy]] =
     (ex_empty_world, Inl SyntaxError)"
    by (simp add: migrate_def replaceExisting_def)
  from a m show ?thesis by (simp add: ex_empty_world_def store_get_def)
qed

section \<open>Claims about the display transformation\<close>

text \<open>Whatever the legacy configuration, neither binding is ever a boolean.\<close>

lemma url_bindings_are_objects:
  assumes "importDepreciatedDisplayFields a dd = Inr d" and "twake d = Some t"
  shows "tab t \<noteq> Some (UrlFlag b) \<and> standalone t \<noteq> Some (UrlFlag b)"
  using display_fields_shape [OF assms(1)] assms(2) by (auto split: option.splits)

text \<open>
  C8, on the code. A channel tab and a standalone entry that are present without an
  iframe give the object \<open>{url: undefined}\<close>, not the boolean \<open>true\<close>: the object literal
  on the left of \<open>||\<close> at lines 42 and 46 is always truthy.
\<close>

theorem binding_without_iframe_is_object:
  "Option.bind (channel_tab ex_display_no_iframe) tab_iframe = None \<and>
   Option.bind (app ex_display_no_iframe) app_iframe = None \<and>
   importDepreciatedDisplayFields ex_published (Some ex_display_no_iframe) =
     Inr \<lparr>twake =
            Some \<lparr>tab = Some (UrlObject None), standalone = Some (UrlObject None),
                  configuration = Some [], direct = None, files = None, chat = None\<rparr>\<rparr>"
  by (simp add: ex_display_no_iframe_def ex_published_def importDepreciatedDisplayFields_def
      import_direct_def ensure_twake_def put_twake_def empty_Twake_def or_url_binding_def Let_def)

text \<open>
  C9. For every legacy display configuration (and an application with an identity, which
  the function reads), the transformation returns a display whose
  \<open>twake.configuration\<close> is the list with \<open>global\<close> first, if configuration in the
  workspace is allowed, and \<open>channel\<close> second, if configuration in the channel is allowed;
  with both allowed it is exactly \<open>[global, channel]\<close>.
\<close>

theorem configuration_order:
  assumes "identity application = Some i"
  shows "\<exists>d t. importDepreciatedDisplayFields application dd = Inr d \<and> twake d = Some t \<and>
     configuration t =
       Some ((if truthy_bool (Option.bind (Option.bind dd legacy_configuration)
                                can_configure_in_workspace)
              then [''global''] else []) @
             (if truthy_bool (Option.bind (Option.bind dd legacy_configuration)
                                can_configure_in_channel)
              then [''channel''] else [])) \<and>
     (truthy_bool (Option.bind (Option.bind dd legacy_configuration) can_configure_in_workspace) \<and>
      truthy_bool (Option.bind (Option.bind dd legacy_configuration) can_configure_in_channel)
      \<longrightarrow> configuration t = Some [''global'', ''channel''])"
proof -
  from display_fields_Inr [OF assms] obtain d where
    d: "importDepreciatedDisplayFields application dd = Inr d" by blast
  from display_fields_shape [OF d] d show ?thesis by auto
qed

theorem configuration_order_witness:
  "identity ex_published = Some ex_identity \<and>
   (\<exists>d t. importDepreciatedDisplayFields ex_published (Some ex_display_both_levels) = Inr d \<and>
          twake d = Some t \<and> configuration t = Some [''global'', ''channel''])"
  using configuration_order [of ex_published ex_identity "Some ex_display_both_levels"]
  by (simp add: ex_published_def ex_display_both_levels_def)

section \<open>Claims about events\<close>

text \<open>The membership service has no effect on what \<open>event\<close> does.\<close>

lemma event_ignores_membership:
  "event (sv\<lparr>getCompanyUser := g\<rparr>) w application_id body user_id =
     event sv w application_id body user_id"
  by (simp add: event_def Let_def split: option.splits)

text \<open>
  C7, on the code. An event for a company in which the caller has no membership is
  forwarded when the application is installed in that company: the test at line 461 reads
  the promise of the membership, not the membership.
\<close>

theorem event_without_membership_is_forwarded:
  "getCompanyUser ex_services (body_company_id ex_event_body) ''u1'' = None \<and>
   event ex_services ex_world ''app1'' ex_event_body ''u1'' =
     (ex_world
        \<lparr>hook_calls :=
           [\<lparr>hook_application_id = ''app1'', hook_connection_id = None, hook_user_id = ''u1'',
             hook_type = Some ''action'', hook_name = Some ''open'', hook_content = JNull,
             hook_company_id = ''c2'', hook_workspace_id = None\<rparr>]\<rparr>,
      Inr (JString ''ok''))"
  by (simp add: event_def ex_services_def ex_event_body_def ex_world_def ex_published_def
        store_get_def Let_def)

end
